theory Spec2Isabelle
  imports Complex_Main "HOL-Library.AList"
begin

section \<open>Python values\<close>

text \<open>
  The pipeline passes around the values that \<^verbatim>\<open>json.loads\<close> produces: \<^verbatim>\<open>None\<close>,
  booleans, integers, floats, strings, lists and dictionaries. A Python \<^verbatim>\<open>dict\<close> keeps
  its keys in insertion order and holds every key once; it is modelled as an association
  list whose keys are distinct (\<open>dict_ok\<close>). Floats are idealised as real numbers
  (no rounding, no NaN, no infinities). A string is a list of characters; a
  \<^typ>\<open>char\<close> is one of the first 256 code points, which are the only ones the
  functions below look at.
\<close>

datatype py_value =
    PNone
  | PBool bool
  | PInt int
  | PFloat real
  | PStr string
  | PList "py_value list"
  | PDict "(string \<times> py_value) list"

type_synonym py_dict = "(string \<times> py_value) list"

definition dict_ok :: "py_dict \<Rightarrow> bool" where
  "dict_ok d = distinct (map fst d)"

text \<open>\<^verbatim>\<open>key in d\<close>, \<^verbatim>\<open>d.get(key)\<close> and \<^verbatim>\<open>d[key] = v\<close> (an existing key keeps its place, a new
  key goes last).\<close>

definition has_key :: "py_dict \<Rightarrow> string \<Rightarrow> bool" where
  "has_key d k = (map_of d k \<noteq> None)"

definition dict_get :: "py_dict \<Rightarrow> string \<Rightarrow> py_value option" where
  "dict_get d k = map_of d k"

definition dict_set :: "py_dict \<Rightarrow> string \<Rightarrow> py_value \<Rightarrow> py_dict" where
  "dict_set d k v = AList.update k v d"

text \<open>The truth value Python gives a value in \<^verbatim>\<open>if v\<close>.\<close>

fun truthy :: "py_value \<Rightarrow> bool" where
  "truthy PNone = False"
| "truthy (PBool b) = b"
| "truthy (PInt i) = (i \<noteq> 0)"
| "truthy (PFloat r) = (r \<noteq> 0)"
| "truthy (PStr s) = (s \<noteq> [])"
| "truthy (PList xs) = (xs \<noteq> [])"
| "truthy (PDict d) = (d \<noteq> [])"

section \<open>Enumerations and configuration (models/document.py, config.py)\<close>

datatype DocumentType = INVOICE | CONTRACT | FORM | RECEIPT | UNKNOWN

datatype ConfidenceLevel = HIGH | MEDIUM | LOW

datatype ExtractionMethod = OLLAMA | HUGGINGFACE | OPENAI

fun ConfidenceLevel_value :: "ConfidenceLevel \<Rightarrow> string" where
  "ConfidenceLevel_value HIGH = ''high''"
| "ConfidenceLevel_value MEDIUM = ''medium''"
| "ConfidenceLevel_value LOW = ''low''"

record Config =
  OPENAI_API_KEY :: "string option"
  MODEL_NAME :: string
  OLLAMA_MODEL :: string
  OLLAMA_URL :: string
  HF_MODEL :: string
  CONFIDENCE_THRESHOLD :: real

text \<open>The configuration when no environment variable is set.\<close>

definition default_Config :: Config where
  "default_Config =
     \<lparr> OPENAI_API_KEY = None, MODEL_NAME = ''gpt-4'', OLLAMA_MODEL = ''llama2'',
       OLLAMA_URL = ''http://localhost:11434'', HF_MODEL = ''microsoft/DialoGPT-small'',
       CONFIDENCE_THRESHOLD = 6 / 10 \<rparr>"

section \<open>Confidence and review policy (core/processor.py)\<close>

text \<open>\<^verbatim>\<open>_calculate_confidence\<close>: the completeness factor starts at 0.5 and is recomputed
  only for a non-empty dictionary without an \<^verbatim>\<open>error\<close> key.\<close>

definition calculate_confidence :: "real \<Rightarrow> py_dict \<Rightarrow> real" where
  "calculate_confidence ml_confidence extracted_data =
     (let data_completeness =
            (if extracted_data \<noteq> [] \<and> \<not> has_key extracted_data ''error''
             then (let non_empty_fields = length (filter truthy (map snd extracted_data));
                       total_fields = length extracted_data
                   in if total_fields > 0
                      then real non_empty_fields / real total_fields else 5 / 10)
             else 5 / 10);
          overall_confidence = ml_confidence * (4 / 10) + data_completeness * (6 / 10)
      in min 1 (max 0 overall_confidence))"

text \<open>\<^verbatim>\<open>_get_confidence_level\<close>, reading the threshold from the configuration.\<close>

definition get_confidence_level :: "Config \<Rightarrow> real \<Rightarrow> ConfidenceLevel" where
  "get_confidence_level config score =
     (if score \<ge> 8 / 10 then HIGH
      else if score \<ge> CONFIDENCE_THRESHOLD config then MEDIUM
      else LOW)"

text \<open>The scorer as the specification words it: clamp to the unit interval, and a
  completeness that counts the values that are not empty, where the empty values are
  \<^verbatim>\<open>None\<close>, the empty string, the empty list and the empty dictionary.\<close>

definition clamp01 :: "real \<Rightarrow> real" where
  "clamp01 x = (if x < 0 then 0 else if x > 1 then 1 else x)"

fun spec_non_empty :: "py_value \<Rightarrow> bool" where
  "spec_non_empty PNone = False"
| "spec_non_empty (PStr s) = (s \<noteq> [])"
| "spec_non_empty (PList xs) = (xs \<noteq> [])"
| "spec_non_empty (PDict d) = (d \<noteq> [])"
| "spec_non_empty (PBool b) = True"
| "spec_non_empty (PInt i) = True"
| "spec_non_empty (PFloat r) = True"

definition completeness_of :: "(py_value \<Rightarrow> bool) \<Rightarrow> py_dict \<Rightarrow> real" where
  "completeness_of filled d =
     (if d = [] \<or> has_key d ''error'' then 1 / 2
      else real (length (filter filled (map snd d))) / real (length d))"

definition spec_overall_confidence :: "(py_value \<Rightarrow> bool) \<Rightarrow> real \<Rightarrow> py_dict \<Rightarrow> real" where
  "spec_overall_confidence filled ml_confidence d =
     clamp01 (4 / 10 * ml_confidence + 6 / 10 * completeness_of filled d)"

section \<open>Exceptions and the Python runtime\<close>

text \<open>Every \<^verbatim>\<open>raise\<close> of the source is a value: the exception's class and its message.\<close>

datatype exc =
    RuntimeError string
  | ValueError string
  | KeyError string
  | IndexError string
  | ValidationError string
  | HTTPException nat string
  | JSONDecodeError string
  | AttributeError string
  | RecursionError string
  | OtherError string

fun is_JSONDecodeError :: "exc \<Rightarrow> bool" where
  "is_JSONDecodeError (JSONDecodeError m) = True"
| "is_JSONDecodeError e = False"

fun is_AttributeError :: "exc \<Rightarrow> bool" where
  "is_AttributeError (AttributeError m) = True"
| "is_AttributeError e = False"

text \<open>
  Functions of the Python runtime and its standard library that the source calls and
  that are not part of the repository are parameters of the model:
  \<^item> \<open>json_loads\<close> is \<^verbatim>\<open>json.loads\<close>: the decoded value, or the exception it raises
    (\<^verbatim>\<open>JSONDecodeError\<close> for a text that is not JSON, but also \<^verbatim>\<open>ValueError\<close> for an
    integer literal beyond the interpreter's digit limit and \<^verbatim>\<open>RecursionError\<close> for a
    nesting that is too deep);
  \<^item> \<open>py_str\<close> is \<^verbatim>\<open>str(v)\<close>, which is also what an f-string prints for \<^verbatim>\<open>{v}\<close>;
  \<^item> \<open>py_format\<close> is \<^verbatim>\<open>template.format(**kwargs)\<close> for string-valued keyword arguments;
  \<^item> \<open>py_title\<close> is \<^verbatim>\<open>str.title\<close>.
\<close>

record python =
  json_loads :: "string \<Rightarrow> exc + py_value"
  py_str :: "py_value \<Rightarrow> string"
  py_format :: "string \<Rightarrow> (string \<times> string) list \<Rightarrow> exc + string"
  py_title :: "string \<Rightarrow> string"

section \<open>Strings\<close>


definition py_rfind :: "string \<Rightarrow> char \<Rightarrow> int" where
  "py_rfind s c =
     (if c \<in> set s
      then int (length s) - 1 - int (length (takeWhile (\<lambda>x. x \<noteq> c) (rev s)))
      else - 1)"


text \<open>\<^verbatim>\<open>needle in s\<close> for strings.\<close>

fun str_contains :: "string \<Rightarrow> string \<Rightarrow> bool" where
  "str_contains needle [] = (needle = [])"
| "str_contains needle (c # cs) =
     (take (length needle) (c # cs) = needle \<or> str_contains needle cs)"

text \<open>\<^verbatim>\<open>s.replace(old, new)\<close> for a non-empty \<open>old\<close>: the occurrences are replaced from the
  left, without overlap.\<close>

function py_replace :: "string \<Rightarrow> string \<Rightarrow> string \<Rightarrow> string" where
  "py_replace old new s =
     (if old = [] \<or> s = [] then s
      else if take (length old) s = old then new @ py_replace old new (drop (length old) s)
      else hd s # py_replace old new (tl s))"
  by pat_completeness auto
termination
  by (relation "measure (\<lambda>(old, new, s). length s)") auto

declare py_replace.simps [simp del]

text \<open>The characters \<^verbatim>\<open>str.strip()\<close> removes, among the first 256 code points.\<close>

definition py_isspace :: "char \<Rightarrow> bool" where
  "py_isspace c =
     (let n = of_char c :: nat
      in (9 \<le> n \<and> n \<le> 13) \<or> (28 \<le> n \<and> n \<le> 32) \<or> n = 133 \<or> n = 160)"

definition py_strip_chars :: "(char \<Rightarrow> bool) \<Rightarrow> string \<Rightarrow> string" where
  "py_strip_chars P s = rev (dropWhile P (rev (dropWhile P s)))"

definition py_strip :: "string \<Rightarrow> string" where
  "py_strip s = py_strip_chars py_isspace s"

text \<open>\<^verbatim>\<open>s.split(c)\<close> and \<^verbatim>\<open>sep.join(xs)\<close>.\<close>

fun py_split :: "char \<Rightarrow> string \<Rightarrow> string list" where
  "py_split c [] = [[]]"
| "py_split c (x # xs) =
     (if x = c then [] # py_split c xs
      else (case py_split c xs of
              [] \<Rightarrow> [[x]]
            | p # ps \<Rightarrow> (x # p) # ps))"

fun py_join :: "string \<Rightarrow> string list \<Rightarrow> string" where
  "py_join sep [] = []"
| "py_join sep [x] = x"
| "py_join sep (x # y # ys) = x @ sep @ py_join sep (y # ys)"

text \<open>The decimal digits of a natural number and of an integer, as \<^verbatim>\<open>str\<close> prints them.\<close>

fun digits_fuel :: "nat \<Rightarrow> nat \<Rightarrow> string" where
  "digits_fuel 0 n = []"
| "digits_fuel (Suc k) n =
     (if n < 10 then [''0123456789'' ! n]
      else digits_fuel k (n div 10) @ [''0123456789'' ! (n mod 10)])"

definition str_nat :: "nat \<Rightarrow> string" where
  "str_nat n = digits_fuel (Suc n) n"

definition str_int :: "int \<Rightarrow> string" where
  "str_int i = (if i < 0 then CHR ''-'' # str_nat (nat (- i)) else str_nat (nat i))"

section \<open>Backend selection (Processor.__init__)\<close>

text \<open>
  What the three probes find when they run: whether the Ollama server answers the
  \<^verbatim>\<open>/api/tags\<close> request with status 200, whether the Hugging Face pipeline loads, whether
  LangChain was importable, and whether the OpenAI client can be constructed.
\<close>

record backends =
  ollama_tags_ok :: bool
  hf_pipeline_loads :: bool
  LANGCHAIN_AVAILABLE :: bool
  openai_client_ok :: bool

text \<open>The processor object. \<open>probed\<close> is a ghost field: the probes that have run, in
  the order they ran.\<close>

record Processor =
  config :: Config
  extraction_method :: string
  probed :: "string list"

definition init_ollama :: "backends \<Rightarrow> Processor \<Rightarrow> bool \<times> Processor" where
  "init_ollama b p = (ollama_tags_ok b, p\<lparr>probed := probed p @ [''ollama'']\<rparr>)"

definition init_huggingface :: "backends \<Rightarrow> Processor \<Rightarrow> bool \<times> Processor" where
  "init_huggingface b p = (hf_pipeline_loads b, p\<lparr>probed := probed p @ [''huggingface'']\<rparr>)"

definition init_openai :: "backends \<Rightarrow> Processor \<Rightarrow> bool \<times> Processor" where
  "init_openai b p =
     (LANGCHAIN_AVAILABLE b
        \<and> (case OPENAI_API_KEY (config p) of None \<Rightarrow> False | Some k \<Rightarrow> k \<noteq> [])
        \<and> openai_client_ok b,
      p\<lparr>probed := probed p @ [''openai'']\<rparr>)"

text \<open>The constructor, from the point where the extractors are tried. The message of
  the error is the source's without its leading emoji.\<close>

definition Processor_init :: "Config \<Rightarrow> backends \<Rightarrow> exc + Processor" where
  "Processor_init cfg b =
     (let p0 = \<lparr> config = cfg, extraction_method = ''none'', probed = [] \<rparr>;
          (ok1, p1) = init_ollama b p0
      in if ok1 then Inr (p1\<lparr>extraction_method := ''ollama''\<rparr>)
         else (let (ok2, p2) = init_huggingface b p1
               in if ok2 then Inr (p2\<lparr>extraction_method := ''huggingface''\<rparr>)
                  else (let (ok3, p3) = init_openai b p2
                        in if ok3 then Inr (p3\<lparr>extraction_method := ''openai''\<rparr>)
                           else Inl (RuntimeError ''No AI extraction method available!''))))"

section \<open>The response parser (_parse_json_response)\<close>


section \<open>Post-processing of extracted data (_post_process_extracted_data)\<close>

definition item_fields :: "string list" where
  "item_fields = [''items_purchased'', ''line_items'', ''items'', ''products'']"

text \<open>
  \<^verbatim>\<open>re.search(r'\[.*\]', s)\<close>: the search tries each start position from the left; at an
  opening bracket the greedy \<^verbatim>\<open>.*\<close> runs to the end of the line (the dot matches every
  character but the newline) and backs up to the last closing bracket on it.
\<close>

fun re_search_brackets :: "string \<Rightarrow> string option" where
  "re_search_brackets [] = None"
| "re_search_brackets (c # cs) =
     (if c = CHR ''[''
      then (let line = takeWhile (\<lambda>x. x \<noteq> CHR 0x0A) cs
            in if CHR '']'' \<in> set line
               then Some (c # take (length line
                                     - length (takeWhile (\<lambda>x. x \<noteq> CHR '']'') (rev line))) line)
               else re_search_brackets cs)
      else re_search_brackets cs)"

text \<open>\<^verbatim>\<open>item.get(k1, item.get(k2, default))\<close> and the comparison \<^verbatim>\<open>v != 1\<close>, in which
  \<^verbatim>\<open>1\<close>, \<^verbatim>\<open>1.0\<close> and \<^verbatim>\<open>True\<close> are equal to 1.\<close>

definition get2 :: "py_dict \<Rightarrow> string \<Rightarrow> string \<Rightarrow> py_value \<Rightarrow> py_value" where
  "get2 item k1 k2 dflt =
     (case dict_get item k1 of
        Some v \<Rightarrow> v
      | None \<Rightarrow> (case dict_get item k2 of Some v \<Rightarrow> v | None \<Rightarrow> dflt))"

fun py_eq_one :: "py_value \<Rightarrow> bool" where
  "py_eq_one (PInt i) = (i = 1)"
| "py_eq_one (PFloat r) = (r = 1)"
| "py_eq_one (PBool b) = b"
| "py_eq_one v = False"

text \<open>The readable line of one element of the parsed array.\<close>

definition item_str :: "python \<Rightarrow> py_value \<Rightarrow> string" where
  "item_str py item =
     (case item of
        PDict it \<Rightarrow>
          (let desc = get2 it ''description'' ''name'' (PStr ''Item'');
               qty = get2 it ''quantity'' ''qty'' (PInt 1);
               price = get2 it ''unit_price'' ''price'' (PStr []);
               total = get2 it ''total'' ''amount'' (PStr [])
           in py_str py desc
              @ (if truthy qty \<and> \<not> py_eq_one qty then '' (Qty: '' @ py_str py qty @ '')'' else [])
              @ (if truthy price then '' @ '' @ py_str py price else [])
              @ (if truthy total then '' = '' @ py_str py total else []))
      | _ \<Rightarrow> py_str py item)"

text \<open>The bullet character U+2022, written as its three UTF-8 bytes, and the bulleted
  lines joined by newlines.\<close>

definition bullet :: string where
  "bullet = [CHR 0xE2, CHR 0x80, CHR 0xA2]"

definition bullet_lines :: "string list \<Rightarrow> string" where
  "bullet_lines items = py_join [CHR 0x0A] (map (\<lambda>item. bullet @ '' '' @ item) items)"

text \<open>The cleanup of the \<^verbatim>\<open>except\<close> branch: strip the brackets, delete the quotes, split
  at the commas, keep the parts that are not blank.\<close>

definition cleanup_items :: "string \<Rightarrow> string list" where
  "cleanup_items raw_value =
     (let cleaned = filter (\<lambda>c. c \<noteq> CHR 0x22)
                      (filter (\<lambda>c. c \<noteq> CHR 0x27)
                         (py_strip_chars (\<lambda>c. c = CHR ''['' \<or> c = CHR '']'') raw_value))
      in map py_strip (filter (\<lambda>item. py_strip item \<noteq> []) (py_split (CHR '','') cleaned)))"

text \<open>
  The body of the loop for one field. The \<^verbatim>\<open>try\<close> handles \<^verbatim>\<open>JSONDecodeError\<close> and
  \<^verbatim>\<open>AttributeError\<close> with the cleanup; any other exception of \<^verbatim>\<open>json.loads\<close> leaves the
  function, and it is raised before the dictionary is written in this round.
\<close>

definition post_process_field :: "python \<Rightarrow> string \<Rightarrow> py_dict \<Rightarrow> exc + py_dict" where
  "post_process_field py field extracted_data =
     (case dict_get extracted_data field of
        Some (PStr raw_value) \<Rightarrow>
          (case re_search_brackets raw_value of
             None \<Rightarrow> Inr extracted_data
           | Some m \<Rightarrow>
               (case json_loads py m of
                  Inl e \<Rightarrow>
                    (if is_JSONDecodeError e \<or> is_AttributeError e
                     then Inr (if raw_value \<noteq> [] \<and> hd raw_value = CHR ''[''
                                  \<and> last raw_value = CHR '']''
                               then (let items = cleanup_items raw_value
                                     in if length items \<le> 5
                                        then dict_set extracted_data field
                                               (PStr (bullet_lines (take 5 items)))
                                        else extracted_data)
                               else extracted_data)
                     else Inl e)
                | Inr (PList items_array) \<Rightarrow>
                    Inr (if length items_array > 0
                         then dict_set
                                (dict_set extracted_data field
                                   (PStr (bullet_lines (map (item_str py) items_array))))
                                (field @ ''_raw'') (PStr raw_value)
                         else extracted_data)
                | Inr _ \<Rightarrow> Inr extracted_data))
      | _ \<Rightarrow> Inr extracted_data)"

text \<open>
  The loop. The source changes the dictionary in place, so the model gives the
  dictionary as it stands when the function returns or raises, and the exception if
  there is one.
\<close>

fun post_process_loop :: "python \<Rightarrow> string list \<Rightarrow> py_dict \<Rightarrow> py_dict \<times> exc option" where
  "post_process_loop py [] d = (d, None)"
| "post_process_loop py (field # rest) d =
     (case post_process_field py field d of
        Inl e \<Rightarrow> (d, Some e)
      | Inr d' \<Rightarrow> post_process_loop py rest d')"

definition post_process_extracted_data :: "python \<Rightarrow> py_dict \<Rightarrow> py_dict \<times> exc option" where
  "post_process_extracted_data py extracted_data =
     post_process_loop py item_fields extracted_data"

section \<open>The pipeline (process_document)\<close>

text \<open>
  The collaborators of one run: the trained classifier, the three extraction adapters
  (each formats a prompt and calls its backend, so each may raise), and the elapsed
  time as the source formats it.
\<close>

record collaborators =
  classify_document :: "string \<Rightarrow> string \<times> real"
  extract_with_ollama :: "string \<Rightarrow> string \<Rightarrow> exc + py_dict"
  extract_with_huggingface :: "string \<Rightarrow> string \<Rightarrow> exc + py_dict"
  extract_with_gpt4 :: "string \<Rightarrow> string \<Rightarrow> exc + py_dict"
  processing_time_str :: string

text \<open>\<^verbatim>\<open>_get_model_display_name\<close>.\<close>

definition after_last_slash :: "string \<Rightarrow> string" where
  "after_last_slash s = rev (takeWhile (\<lambda>c. c \<noteq> CHR ''/'') (rev s))"

definition get_model_display_name :: "python \<Rightarrow> Processor \<Rightarrow> string" where
  "get_model_display_name py p =
     (if extraction_method p = ''ollama''
      then (case map_of [(''llama2'', ''Llama 2''), (''mistral'', ''Mistral''),
                         (''codellama'', ''Code Llama''), (''llama3'', ''Llama 3'')]
                  (OLLAMA_MODEL (config p)) of
              Some n \<Rightarrow> n
            | None \<Rightarrow> py_title py (OLLAMA_MODEL (config p)))
      else if extraction_method p = ''huggingface''
      then (let model_name = after_last_slash (HF_MODEL (config p))
            in case map_of [(''DialoGPT-small'', ''DialoGPT Small''),
                            (''DialoGPT-medium'', ''DialoGPT Medium''),
                            (''distilbert-base-uncased'', ''DistilBERT'')] model_name of
                 Some n \<Rightarrow> n
               | None \<Rightarrow> model_name)
      else if extraction_method p = ''openai''
      then (case map_of [(''gpt-4'', ''GPT-4''), (''gpt-3.5-turbo'', ''GPT-3.5 Turbo''),
                         (''gpt-4-turbo'', ''GPT-4 Turbo'')] (MODEL_NAME (config p)) of
              Some n \<Rightarrow> n
            | None \<Rightarrow> MODEL_NAME (config p))
      else ''Unknown Model'')"

text \<open>The dictionary \<^verbatim>\<open>process_document\<close> returns has a fixed set of keys; it is a record
  here, each field named after its key.\<close>

record raw_result =
  rr_document_type :: string
  rr_ml_confidence :: real
  rr_overall_confidence :: real
  rr_confidence_level :: string
  rr_needs_human_review :: bool
  rr_extracted_data :: py_dict
  rr_processing_time :: string
  rr_extraction_method :: string
  rr_model_display_name :: string
  rr_raw_text :: string

definition process_document ::
  "python \<Rightarrow> collaborators \<Rightarrow> Processor \<Rightarrow> string \<Rightarrow> exc + raw_result" where
  "process_document py co p text =
     (let (doc_type, ml_confidence) = classify_document co text
      in case (if extraction_method p = ''ollama'' then extract_with_ollama co text doc_type
               else if extraction_method p = ''huggingface''
               then extract_with_huggingface co text doc_type
               else if extraction_method p = ''openai'' then extract_with_gpt4 co text doc_type
               else Inr [(''error'', PStr ''No extraction method available'')]) of
           Inl e \<Rightarrow> Inl e
         | Inr extracted \<Rightarrow>
             (case post_process_extracted_data py extracted of
                (left, Some e) \<Rightarrow> Inl e
              | (extracted_data, None) \<Rightarrow>
                  (let overall_confidence = calculate_confidence ml_confidence extracted_data;
                       confidence_level = get_confidence_level (config p) overall_confidence;
                       needs_review = (confidence_level = LOW)
                   in Inr \<lparr> rr_document_type = doc_type,
                            rr_ml_confidence = ml_confidence,
                            rr_overall_confidence = overall_confidence,
                            rr_confidence_level = ConfidenceLevel_value confidence_level,
                            rr_needs_human_review = needs_review,
                            rr_extracted_data = extracted_data,
                            rr_processing_time = processing_time_str co,
                            rr_extraction_method = extraction_method p,
                            rr_model_display_name = get_model_display_name py p,
                            rr_raw_text = text \<rparr>)))"

section \<open>The prompt catalog (prompt_loader.py)\<close>

text \<open>The loaded catalog: the value of its \<^verbatim>\<open>document_types\<close> key and of its \<^verbatim>\<open>default\<close>
  key, each an empty dictionary when the key is absent.\<close>

record prompts =
  document_types :: "(string \<times> (string \<times> string) list) list"
  default_prompts :: "(string \<times> string) list"

definition get_default_prompts :: prompts where
  "get_default_prompts =
     \<lparr> document_types =
         [(''invoice'',
           [(''ollama'', ''Extract invoice information from: {text}'' @ [CHR 0x0A] @ ''Return JSON:''),
            (''openai'', ''Extract invoice information from: {text}'' @ [CHR 0x0A] @ ''Return JSON:''),
            (''huggingface'', ''Extract invoice from: {text_preview}...'' @ [CHR 0x0A] @ ''JSON:'')])],
       default_prompts =
         [(''ollama'', ''Extract information from: {text}'' @ [CHR 0x0A] @ ''Return JSON:''),
          (''openai'', ''Extract information from: {text}'' @ [CHR 0x0A] @ ''Return JSON:''),
          (''huggingface'', ''Extract from: {text_preview}...'' @ [CHR 0x0A] @ ''JSON:'')] \<rparr>"

definition fallback_prompt :: "string \<Rightarrow> string" where
  "fallback_prompt doc_type =
     ''Extract '' @ doc_type @ '' information from: {text}'' @ [CHR 0x0A] @ ''Return JSON:''"

definition get_prompt :: "prompts \<Rightarrow> string \<Rightarrow> string \<Rightarrow> string" where
  "get_prompt ps doc_type method =
     (case (case map_of (document_types ps) doc_type of
              Some doc_prompts \<Rightarrow> map_of doc_prompts method
            | None \<Rightarrow> None) of
        Some t \<Rightarrow> t
      | None \<Rightarrow>
          (case map_of (default_prompts ps) method of
             Some t \<Rightarrow> t
           | None \<Rightarrow> fallback_prompt doc_type))"

text \<open>The keyword arguments \<^verbatim>\<open>format_prompt\<close> prepares, and the function itself: only a
  \<^verbatim>\<open>KeyError\<close> of \<^verbatim>\<open>str.format\<close> is caught.\<close>

definition format_vars :: "string \<Rightarrow> (string \<times> string) list" where
  "format_vars text =
     [(''text'', text), (''text_preview'', if length text > 300 then take 300 text else text)]"

definition format_prompt ::
  "python \<Rightarrow> prompts \<Rightarrow> string \<Rightarrow> string \<Rightarrow> string \<Rightarrow> exc + string" where
  "format_prompt py ps doc_type method text =
     (let prompt_template = get_prompt ps doc_type method
      in case py_format py prompt_template (format_vars text) of
           Inr s \<Rightarrow> Inr s
         | Inl (KeyError k) \<Rightarrow>
             Inr (py_replace ''{text_preview}'' (take 300 text)
                    (py_replace ''{text}'' text prompt_template))
         | Inl e \<Rightarrow> Inl e)"

section \<open>Text extraction (textract_core.py)\<close>

text \<open>
  What the libraries do with the file at a path. For a PDF: the text of each page, or a
  failure with its message. For an image, the outcome of the \<^verbatim>\<open>try\<close> block up to the
  OCR call: the recognised text, an \<^verbatim>\<open>ImportError\<close>, or any other exception with its
  message.
\<close>

datatype pdf_outcome = PdfPages "string list" | PdfFailed string

datatype ocr_outcome = OcrText string | OcrImportError | OcrFailed string

record file_system =
  read_text_utf8 :: "string \<Rightarrow> exc + string"
  read_pdf :: "string \<Rightarrow> pdf_outcome"
  run_ocr :: "string \<Rightarrow> ocr_outcome"

definition image_kinds :: "string list" where
  "image_kinds = [''.png'', ''.jpg'', ''.jpeg'']"

definition extract_text_from_file :: "file_system \<Rightarrow> string \<Rightarrow> string \<Rightarrow> exc + string" where
  "extract_text_from_file fs file_path file_ext =
     (if file_ext = ''.txt'' then read_text_utf8 fs file_path
      else if file_ext = ''.pdf''
      then (case read_pdf fs file_path of
              PdfPages pages \<Rightarrow> Inr (concat (map (\<lambda>t. t @ [CHR 0x0A]) pages))
            | PdfFailed msg \<Rightarrow> Inl (HTTPException 500 (''PDF processing error: '' @ msg)))
      else if file_ext \<in> set image_kinds
      then (case run_ocr fs file_path of
              OcrText text \<Rightarrow>
                Inr (if py_strip text \<noteq> [] then text else ''No text found in image'')
            | OcrImportError \<Rightarrow>
                Inl (HTTPException 500 ''pytesseract/PIL not installed for image processing'')
            | OcrFailed error_msg \<Rightarrow>
                Inr (if str_contains ''Corrupt JPEG'' error_msg
                        \<or> str_contains ''premature end'' error_msg
                     then ''This image appears to be corrupted. Please try uploading a different image or retaking the photo.''
                     else ''Unable to process this image: '' @ error_msg))
      else Inl (HTTPException 400 (''Unsupported file type: '' @ file_ext)))"

section \<open>The document service (file_service.py, document_service.py)\<close>

text \<open>\<^verbatim>\<open>str.lower\<close> on the first 256 code points, and \<^verbatim>\<open>Path(filename).suffix\<close>: the last
  component of the path, from its last dot on, when that dot is neither its first nor
  its last character.\<close>

definition py_lower_char :: "char \<Rightarrow> char" where
  "py_lower_char c =
     (let n = of_char c :: nat
      in if (65 \<le> n \<and> n \<le> 90) \<or> (192 \<le> n \<and> n \<le> 222 \<and> n \<noteq> 215)
         then char_of (n + 32) else c)"

definition py_lower :: "string \<Rightarrow> string" where
  "py_lower s = map py_lower_char s"

definition path_name :: "string \<Rightarrow> string" where
  "path_name f =
     (case filter (\<lambda>p. p \<noteq> [] \<and> p \<noteq> ''.'') (py_split (CHR ''/'') f) of
        [] \<Rightarrow> []
      | p # ps \<Rightarrow> last (p # ps))"

definition path_suffix :: "string \<Rightarrow> string" where
  "path_suffix f =
     (let name = path_name f; i = py_rfind name (CHR ''.'')
      in if 0 < i \<and> i < int (length name) - 1 then drop (nat i) name else [])"

definition ALLOWED_TYPES :: "string list" where
  "ALLOWED_TYPES = [''.txt'', ''.pdf'', ''.png'', ''.jpg'', ''.jpeg'']"

definition MAX_FILE_SIZE :: nat where
  "MAX_FILE_SIZE = 10 * 1024 * 1024"

type_synonym bytes = "char list"

record FileInfo =
  fi_filename :: string
  fi_size_bytes :: nat
  fi_file_type :: string
  fi_is_camera_capture :: bool

text \<open>The model class \<^verbatim>\<open>ProcessingResult\<close>. Its enumeration fields hold members of the
  enumerations, so the field \<open>pr_extraction_method\<close> can only be one of the three
  members \<^verbatim>\<open>ExtractionMethod\<close> declares.\<close>

record ProcessingResult =
  pr_document_type :: DocumentType
  pr_ml_confidence :: real
  pr_overall_confidence :: real
  pr_confidence_level :: ConfidenceLevel
  pr_extraction_method :: ExtractionMethod
  pr_model_display_name :: string
  pr_processing_time :: string
  pr_needs_human_review :: bool
  pr_extracted_data :: py_dict
  pr_uploaded_file :: "string option"
  pr_file_size :: "nat option"
  pr_file_type :: "string option"
  pr_raw_text :: "string option"

text \<open>Looking an enumeration member up by its value, as \<^verbatim>\<open>DocumentType("invoice")\<close> and
  the validation of a field do.\<close>

definition DocumentType_of :: "string \<Rightarrow> DocumentType option" where
  "DocumentType_of s =
     map_of [(''invoice'', INVOICE), (''contract'', CONTRACT), (''form'', FORM),
             (''receipt'', RECEIPT), (''unknown'', UNKNOWN)] s"

definition ConfidenceLevel_of :: "string \<Rightarrow> ConfidenceLevel option" where
  "ConfidenceLevel_of s = map_of [(''high'', HIGH), (''medium'', MEDIUM), (''low'', LOW)] s"

definition ExtractionMethod_of :: "string \<Rightarrow> ExtractionMethod option" where
  "ExtractionMethod_of s =
     map_of [(''ollama'', OLLAMA), (''huggingface'', HUGGINGFACE), (''openai'', OPENAI)] s"

text \<open>
  The constructor call \<^verbatim>\<open>ProcessingResult(...)\<close>, with the arguments the service passes:
  a document type, two floats, and the confidence level and the extraction method as
  strings. The fields are validated against their declarations; the error names the
  fields that were refused.
\<close>

definition ProcessingResult_init ::
  "DocumentType \<Rightarrow> real \<Rightarrow> real \<Rightarrow> string \<Rightarrow> string \<Rightarrow> string \<Rightarrow> string \<Rightarrow> bool \<Rightarrow> py_dict
     \<Rightarrow> string option \<Rightarrow> nat option \<Rightarrow> string option \<Rightarrow> string option
     \<Rightarrow> exc + ProcessingResult" where
  "ProcessingResult_init document_type ml_confidence overall_confidence level_value
       method_value model_display_name processing_time needs_human_review extracted_data
       uploaded_file file_size file_type raw_text =
     (let refused =
            (if 0 \<le> ml_confidence \<and> ml_confidence \<le> 1 then [] else [''ml_confidence''])
            @ (if 0 \<le> overall_confidence \<and> overall_confidence \<le> 1
               then [] else [''overall_confidence''])
            @ (if ConfidenceLevel_of level_value = None then [''confidence_level''] else [])
            @ (if ExtractionMethod_of method_value = None then [''extraction_method''] else [])
      in case (refused, ConfidenceLevel_of level_value, ExtractionMethod_of method_value) of
           ([], Some level, Some method) \<Rightarrow>
             Inr \<lparr> pr_document_type = document_type,
                   pr_ml_confidence = ml_confidence,
                   pr_overall_confidence = overall_confidence,
                   pr_confidence_level = level,
                   pr_extraction_method = method,
                   pr_model_display_name = model_display_name,
                   pr_processing_time = processing_time,
                   pr_needs_human_review = needs_human_review,
                   pr_extracted_data = extracted_data,
                   pr_uploaded_file = uploaded_file,
                   pr_file_size = file_size,
                   pr_file_type = file_type,
                   pr_raw_text = raw_text \<rparr>
         | _ \<Rightarrow> Inl (ValidationError (py_join '', '' refused)))"

text \<open>\<^verbatim>\<open>str(e)\<close> for an exception: the message it carries, but the quoted key for a
  \<^verbatim>\<open>KeyError\<close> (written here for a key without quotes or backslashes) and the status
  code, a colon and the detail for an \<^verbatim>\<open>HTTPException\<close>.\<close>

fun exc_str :: "exc \<Rightarrow> string" where
  "exc_str (RuntimeError m) = m"
| "exc_str (ValueError m) = m"
| "exc_str (KeyError k) = [CHR 0x27] @ k @ [CHR 0x27]"
| "exc_str (IndexError m) = m"
| "exc_str (ValidationError m) = m"
| "exc_str (HTTPException code detail) = str_nat code @ '': '' @ detail"
| "exc_str (JSONDecodeError m) = m"
| "exc_str (AttributeError m) = m"
| "exc_str (RecursionError m) = m"
| "exc_str (OtherError m) = m"

text \<open>
  What the service is built from: the file service's temporary file and text
  extraction, the processor's \<^verbatim>\<open>process_document\<close>, the assignment of the attribute
  \<^verbatim>\<open>batch_index\<close> (which \<^verbatim>\<open>ProcessingResult\<close> does not declare, so whether it is accepted is
  the model library's decision), the message for an oversized file, and the batch's
  identifier and time stamp.
\<close>

record service =
  save_temp_file :: "bytes \<Rightarrow> string \<Rightarrow> exc + string"
  extract_text :: "string \<Rightarrow> string \<Rightarrow> exc + string"
  processor_process_document :: "string \<Rightarrow> exc + raw_result"
  set_batch_index :: "nat \<Rightarrow> ProcessingResult \<Rightarrow> exc + ProcessingResult"
  size_message :: "nat \<Rightarrow> string"
  uuid4 :: string
  time_now :: real

definition validate_file :: "service \<Rightarrow> string \<Rightarrow> nat \<Rightarrow> exc + unit" where
  "validate_file sv filename file_size =
     (if filename = [] then Inl (ValueError ''No file selected'')
      else (let file_ext0 = py_lower (path_suffix filename);
                file_ext = (if take 14 filename = ''captured_image'' \<and> file_ext0 = []
                            then ''.jpg'' else file_ext0)
            in if file_ext \<notin> set ALLOWED_TYPES
               then Inl (ValueError (''File type '' @ file_ext @ '' not supported. Use: ''
                                      @ py_join '', '' ALLOWED_TYPES))
               else if file_size > MAX_FILE_SIZE then Inl (ValueError (size_message sv file_size))
               else Inr ()))"

definition analyze_file :: "service \<Rightarrow> bytes \<Rightarrow> string \<Rightarrow> exc + FileInfo" where
  "analyze_file sv file_content filename =
     (let file_size = length file_content
      in case validate_file sv filename file_size of
           Inl e \<Rightarrow> Inl e
         | Inr u \<Rightarrow>
             (let file_ext0 = py_lower (path_suffix filename);
                  is_camera_capture = (take 14 filename = ''captured_image'');
                  file_ext = (if is_camera_capture \<and> file_ext0 = [] then ''.jpg'' else file_ext0)
              in Inr \<lparr> fi_filename = filename, fi_size_bytes = file_size,
                       fi_file_type = file_ext, fi_is_camera_capture = is_camera_capture \<rparr>))"

definition convert_to_processing_result :: "raw_result \<Rightarrow> FileInfo \<Rightarrow> exc + ProcessingResult" where
  "convert_to_processing_result raw file_info =
     (case DocumentType_of (rr_document_type raw) of
        None \<Rightarrow>
          Inl (ValueError ([CHR 0x27] @ rr_document_type raw @ [CHR 0x27]
                             @ '' is not a valid DocumentType''))
      | Some dt \<Rightarrow>
          ProcessingResult_init dt (rr_ml_confidence raw) (rr_overall_confidence raw)
            (rr_confidence_level raw) (rr_extraction_method raw) (rr_model_display_name raw)
            (rr_processing_time raw) (rr_needs_human_review raw) (rr_extracted_data raw)
            (Some (fi_filename file_info)) (Some (fi_size_bytes file_info))
            (Some (fi_file_type file_info)) (Some (rr_raw_text raw)))"

definition process_single_document :: "service \<Rightarrow> bytes \<Rightarrow> string \<Rightarrow> exc + ProcessingResult" where
  "process_single_document sv file_content filename =
     (case analyze_file sv file_content filename of
        Inl e \<Rightarrow> Inl e
      | Inr file_info \<Rightarrow>
          (case save_temp_file sv file_content filename of
             Inl e \<Rightarrow> Inl e
           | Inr temp_path \<Rightarrow>
               (case extract_text sv temp_path (fi_file_type file_info) of
                  Inl e \<Rightarrow> Inl e
                | Inr text \<Rightarrow>
                    (case processor_process_document sv text of
                       Inl e \<Rightarrow> Inl e
                     | Inr raw \<Rightarrow> convert_to_processing_result raw file_info))))"

text \<open>The body of the \<^verbatim>\<open>try\<close> in the batch loop, and the result the \<^verbatim>\<open>except\<close> branch
  constructs.\<close>

definition try_document :: "service \<Rightarrow> nat \<Rightarrow> bytes \<times> string \<Rightarrow> exc + ProcessingResult" where
  "try_document sv i doc =
     (case process_single_document sv (fst doc) (snd doc) of
        Inl e \<Rightarrow> Inl e
      | Inr result \<Rightarrow> set_batch_index sv i result)"

definition error_result_for :: "exc \<Rightarrow> string \<Rightarrow> exc + ProcessingResult" where
  "error_result_for e filename =
     ProcessingResult_init UNKNOWN 0 0 ''low'' ''none'' ''Error'' ''0s'' True
       [(''error'', PStr (exc_str e))] (Some filename) None None None"

fun batch_loop ::
  "service \<Rightarrow> nat \<Rightarrow> (bytes \<times> string) list \<Rightarrow> ProcessingResult list
     \<Rightarrow> exc + ProcessingResult list" where
  "batch_loop sv i [] results = Inr results"
| "batch_loop sv i (doc # rest) results =
     (case try_document sv i doc of
        Inr result \<Rightarrow> batch_loop sv (Suc i) rest (results @ [result])
      | Inl e \<Rightarrow>
          (case error_result_for e (snd doc) of
             Inl raised \<Rightarrow> Inl raised
           | Inr error_result \<Rightarrow>
               (case set_batch_index sv i error_result of
                  Inl raised \<Rightarrow> Inl raised
                | Inr r \<Rightarrow> batch_loop sv (Suc i) rest (results @ [r]))))"

record BatchProcessingResult =
  batch_id :: string
  total_documents :: nat
  successful :: nat
  failed :: nat
  results :: "ProcessingResult list"
  processed_at :: real

definition process_batch_documents ::
  "service \<Rightarrow> (bytes \<times> string) list \<Rightarrow> exc + BatchProcessingResult" where
  "process_batch_documents sv files_data =
     (case batch_loop sv 0 files_data [] of
        Inl e \<Rightarrow> Inl e
      | Inr rs \<Rightarrow>
          Inr \<lparr> batch_id = uuid4 sv,
                total_documents = length files_data,
                successful = length (filter (\<lambda>r. \<not> has_key (pr_extracted_data r) ''error'') rs),
                failed = length (filter (\<lambda>r. has_key (pr_extracted_data r) ''error'') rs),
                results = rs,
                processed_at = time_now sv \<rparr>)"

section \<open>A concrete runtime for the examples\<close>

text \<open>
  The examples below run the model on concrete inputs, so they need concrete values for
  the runtime's parameters. \<open>example_python\<close> agrees with Python on the inputs the
  examples use: \<^verbatim>\<open>json.loads\<close> on the texts listed in \<open>example_loads\<close> (three that
  decode, three that are not JSON, and an object whose integer has 4301 digits, one more
  than the interpreter's default limit for converting a string to an integer),
  \<^verbatim>\<open>str\<close> on strings, integers, booleans and \<^verbatim>\<open>None\<close>, and \<^verbatim>\<open>str.format\<close> with keyword arguments only, on templates made of
  literal text, doubled braces, single braces and fields that are a plain name or a
  position. In that fragment \<^verbatim>\<open>str.format\<close> works from left to right: a name that is not a
  keyword raises \<^verbatim>\<open>KeyError\<close>, a position (also the empty field \<^verbatim>\<open>{}\<close>) raises
  \<^verbatim>\<open>IndexError\<close> because there are no positional arguments, and a single brace raises
  \<^verbatim>\<open>ValueError\<close>. Everything else (conversions, format specifications, attribute and
  index access) is outside the fragment and answers with \<open>OtherError\<close> or the empty
  string.
\<close>

fun example_str :: "py_value \<Rightarrow> string" where
  "example_str (PStr s) = s"
| "example_str (PInt i) = str_int i"
| "example_str (PBool b) = (if b then ''True'' else ''False'')"
| "example_str PNone = ''None''"
| "example_str v = []"

definition long_integer_field :: string where
  \<open>long_integer_field = ''"n": '' @ replicate 4301 (CHR ''9'')\<close>

definition example_loads :: "string \<Rightarrow> exc + py_value" where
  \<open>example_loads s =
     (if s = ''{'' @ long_integer_field @ ''}''
      then Inl (ValueError ''Exceeds the limit (4300 digits) for integer string conversion: value has 4301 digits; use sys.set_int_max_str_digits() to increase the limit'')
      else (case map_of [(''{"vendor_name": "Acme"}'', PDict [(''vendor_name'', PStr ''Acme'')]),
                         (''["pen", "ink"]'', PList [PStr ''pen'', PStr ''ink'']),
                         (''[{"name": "pen", "qty": 2}]'',
                          PList [PDict [(''name'', PStr ''pen''), (''qty'', PInt 2)]])] s of
              Some v \<Rightarrow> Inr v
            | None \<Rightarrow>
                (case map_of [(''{vendor: Acme}'',
                               ''Expecting property name enclosed in double quotes: line 1 column 2 (char 1)''),
                              ([], ''Expecting value: line 1 column 1 (char 0)''),
                              (''[pen, ink]'', ''Expecting value: line 1 column 2 (char 1)'')] s of
                   Some m \<Rightarrow> Inl (JSONDecodeError m)
                 | None \<Rightarrow> Inl (OtherError ''outside the fragment''))))\<close>

function example_format :: "string \<Rightarrow> (string \<times> string) list \<Rightarrow> exc + string" where
  "example_format [] kw = Inr []"
| "example_format (c # cs) kw =
     (if c = CHR ''{''
      then (case cs of
              [] \<Rightarrow> Inl (ValueError ''Single '{' encountered in format string'')
            | d # ds \<Rightarrow>
                if d = CHR ''{''
                then (case example_format ds kw of
                        Inl e \<Rightarrow> Inl e
                      | Inr r \<Rightarrow> Inr (CHR ''{'' # r))
                else (let name = takeWhile (\<lambda>x. x \<noteq> CHR ''}'') cs;
                          rest = dropWhile (\<lambda>x. x \<noteq> CHR ''}'') cs
                      in if list_ex (\<lambda>x. x \<in> set ''{[.!:'') name
                         then Inl (OtherError ''outside the fragment'')
                         else if rest = [] then Inl (ValueError ''expected '}' before end of string'')
                         else if name = []
                         then Inl (IndexError ''Replacement index 0 out of range for positional args tuple'')
                         else if list_all (\<lambda>x. x \<in> set ''0123456789'') name
                         then (if hd name = CHR ''0'' \<and> length name > 1
                               then Inl (OtherError ''outside the fragment'')
                               else Inl (IndexError (''Replacement index '' @ name
                                           @ '' out of range for positional args tuple'')))
                         else (case map_of kw name of
                                 None \<Rightarrow> Inl (KeyError name)
                               | Some v \<Rightarrow>
                                   (case example_format (tl rest) kw of
                                      Inl e \<Rightarrow> Inl e
                                    | Inr r \<Rightarrow> Inr (v @ r)))))
      else if c = CHR ''}''
      then (case cs of
              [] \<Rightarrow> Inl (ValueError ''Single '}' encountered in format string'')
            | d # ds \<Rightarrow>
                if d = CHR ''}''
                then (case example_format ds kw of
                        Inl e \<Rightarrow> Inl e
                      | Inr r \<Rightarrow> Inr (CHR ''}'' # r))
                else Inl (ValueError ''Single '}' encountered in format string''))
      else (case example_format cs kw of
              Inl e \<Rightarrow> Inl e
            | Inr r \<Rightarrow> Inr (c # r)))"
  by pat_completeness auto
termination
proof (relation "measure (\<lambda>(s, kw). length s)")
  show "wf (measure (\<lambda>(s, kw). length s))" by simp
next
  fix c cs kw d ds
  assume "cs = d # ds"
  then show "((ds, kw), (c # cs, kw)) \<in> measure (\<lambda>(s, kw). length s)" by simp
next
  fix c :: char and cs :: string and kw :: "(string \<times> string) list" and d ds name rest v
  assume "rest = dropWhile (\<lambda>x. x \<noteq> CHR ''}'') cs"
  then have "length rest \<le> length cs"
    by (simp add: length_dropWhile_le)
  moreover have "length (tl rest) \<le> length rest" by simp
  ultimately have "length (tl rest) \<le> length cs" by linarith
  then show "((tl rest, kw), (c # cs, kw)) \<in> measure (\<lambda>(s, kw). length s)" by simp
next
  fix c cs kw d ds
  assume "cs = d # ds"
  then show "((ds, kw), (c # cs, kw)) \<in> measure (\<lambda>(s, kw). length s)" by simp
next
  fix c :: char and cs :: string and kw :: "(string \<times> string) list"
  show "((cs, kw), (c # cs, kw)) \<in> measure (\<lambda>(s, kw). length s)" by simp
qed

definition example_python :: python where
  "example_python =
     \<lparr> json_loads = example_loads, py_str = example_str,
       py_format = example_format, py_title = (\<lambda>s. s) \<rparr>"

text \<open>Example collaborators: a classifier that is unsure about the empty text, an Ollama
  adapter that returns two fields of which one is empty, a Hugging Face adapter that
  reports a failure, and a GPT-4 adapter that raises.\<close>

definition example_collaborators :: collaborators where
  "example_collaborators =
     \<lparr> classify_document = (\<lambda>text. if text = [] then (''form'', 3 / 10) else (''invoice'', 9 / 10)),
       extract_with_ollama =
         (\<lambda>text doc_type. Inr [(''vendor_name'', PStr ''Acme''), (''total'', PStr [])]),
       extract_with_huggingface =
         (\<lambda>text doc_type. Inr [(''error'', PStr ''timed out''), (''raw_response'', PStr [])]),
       extract_with_gpt4 = (\<lambda>text doc_type. Inl (OtherError ''connection refused'')),
       processing_time_str = ''0.01s'' \<rparr>"

definition example_processor :: Processor where
  "example_processor =
     \<lparr> config = default_Config, extraction_method = ''ollama'', probed = [''ollama''] \<rparr>"

text \<open>
  An example service: it stores every file, reads text files only and runs the example
  processor. The model class does not declare \<^verbatim>\<open>batch_index\<close>, so the assignment is
  refused, as pydantic does. \<open>lenient_service\<close> is the same service with a model class
  that would accept the assignment.
\<close>

definition example_service :: service where
  \<open>example_service =
     \<lparr> save_temp_file = (\<lambda>file_content filename. Inr (''uploads/'' @ filename)),
       extract_text =
         (\<lambda>path ext. if ext = ''.txt'' then Inr ''Invoice 42 Total 10''
                      else Inl (HTTPException 400 (''Unsupported file type: '' @ ext))),
       processor_process_document =
         process_document example_python example_collaborators example_processor,
       set_batch_index =
         (\<lambda>i r. Inl (ValueError ''"ProcessingResult" object has no field "batch_index"'')),
       size_message = (\<lambda>n. ''File size exceeds limit''),
       uuid4 = ''00000000-0000-4000-8000-000000000000'',
       time_now = 0 \<rparr>\<close>

definition lenient_service :: service where
  "lenient_service = example_service\<lparr> set_batch_index := (\<lambda>i r. Inr r) \<rparr>"

text \<open>The OpenAI probe succeeds when LangChain is importable, a non-empty API key is
  configured and the client can be constructed.\<close>

definition openai_usable :: "Config \<Rightarrow> backends \<Rightarrow> bool" where
  "openai_usable cfg b =
     (LANGCHAIN_AVAILABLE b
        \<and> (case OPENAI_API_KEY cfg of None \<Rightarrow> False | Some k \<Rightarrow> k \<noteq> [])
        \<and> openai_client_ok b)"

definition example_backends :: "bool \<Rightarrow> bool \<Rightarrow> bool \<Rightarrow> backends" where
  "example_backends a b c =
     \<lparr> ollama_tags_ok = a, hf_pipeline_loads = b, LANGCHAIN_AVAILABLE = c, openai_client_ok = c \<rparr>"

text \<open>
  Filling a template with a value for the full-text placeholder and a value for the
  preview placeholder, the way \<^verbatim>\<open>format_prompt\<close> does it: by \<^verbatim>\<open>str.format\<close>, and by literal
  replacement of the two placeholder names when that raises \<^verbatim>\<open>KeyError\<close>.
\<close>

definition substitute_placeholders :: "python \<Rightarrow> string \<Rightarrow> string \<Rightarrow> string \<Rightarrow> exc + string" where
  "substitute_placeholders py template full preview =
     (case py_format py template [(''text'', full), (''text_preview'', preview)] of
        Inr s \<Rightarrow> Inr s
      | Inl (KeyError k) \<Rightarrow>
          Inr (py_replace ''{text_preview}'' preview (py_replace ''{text}'' full template))
      | Inl e \<Rightarrow> Inl e)"

fun is_KeyError :: "exc \<Rightarrow> bool" where
  "is_KeyError (KeyError k) = True"
| "is_KeyError e = False"

text \<open>Example files: a text file, a two-page PDF, and images on which the OCR step ends
  in each of its ways.\<close>

definition example_files :: file_system where
  "example_files =
     \<lparr> read_text_utf8 = (\<lambda>path. Inr ''Invoice 42 Total 10''),
       read_pdf = (\<lambda>path. PdfPages [''page one'', ''page two'']),
       run_ocr = (\<lambda>path. if path = ''blank.png'' then OcrText ([CHR 0x0A] @ ''  '')
                           else if path = ''receipt.jpg'' then OcrText ''Total 2.50''
                           else if path = ''broken.jpg'' then OcrFailed ''Corrupt JPEG data: premature end of data segment''
                           else if path = ''odd.jpeg'' then OcrFailed ''cannot identify image file''
                           else OcrImportError) \<rparr>"

text \<open>The sibling key of a list-like field, and the condition under which the loop body
  rewrites a field from a parsed array: the field holds a string in which the bracket
  search finds a text that \<^verbatim>\<open>json.loads\<close> parses to a non-empty list.\<close>

definition raw_key :: "string \<Rightarrow> string" where
  "raw_key field = field @ ''_raw''"

definition holds_json_array :: "python \<Rightarrow> py_dict \<Rightarrow> string \<Rightarrow> bool" where
  "holds_json_array py d field =
     (case dict_get d field of
        Some (PStr raw_value) \<Rightarrow>
          (case re_search_brackets raw_value of
             None \<Rightarrow> False
           | Some m \<Rightarrow>
               (case json_loads py m of
                  Inr (PList items_array) \<Rightarrow> items_array \<noteq> []
                | _ \<Rightarrow> False))
      | _ \<Rightarrow> False)"

section \<open>Properties of the confidence policy\<close>

lemma min_max_clamp01: "min 1 (max 0 x) = clamp01 (x::real)"
  by (simp add: clamp01_def min_def max_def)

text \<open>
  C1 (as amended). For every \<open>ml_confidence\<close> and every extracted dictionary the scorer
  returns \<open>0.4 * ml_confidence + 0.6 * completeness\<close> clamped to the unit interval, where
  completeness is 0.5 when the dictionary is empty or has an \<^verbatim>\<open>error\<close> key, and
  otherwise the number of values that Python counts as true (so \<^verbatim>\<open>None\<close>, \<^verbatim>\<open>False\<close>,
  \<open>0\<close>, \<open>0.0\<close>, the empty string, list and dictionary all count as empty) divided by the
  number of keys; for the empty dictionary the result is \<open>0.4 * ml_confidence + 0.3\<close>
  clamped.
\<close>

theorem calculate_confidence_truthy:
  "calculate_confidence ml_confidence d = spec_overall_confidence truthy ml_confidence d
   \<and> calculate_confidence ml_confidence [] = clamp01 (4 / 10 * ml_confidence + 3 / 10)"
proof -
  have gen: "calculate_confidence m e = spec_overall_confidence truthy m e" for m e
  proof (cases "e = [] \<or> has_key e ''error''")
    case True
    then show ?thesis
      by (auto simp add: calculate_confidence_def spec_overall_confidence_def
          completeness_of_def min_max_clamp01 mult.commute)
  next
    case False
    then have "length e > 0" by simp
    with False show ?thesis
      by (simp add: calculate_confidence_def spec_overall_confidence_def
          completeness_of_def min_max_clamp01 mult.commute Let_def)
  qed
  have "spec_overall_confidence truthy ml_confidence [] = clamp01 (4 / 10 * ml_confidence + 3 / 10)"
    by (simp add: spec_overall_confidence_def completeness_of_def)
  with gen show ?thesis by simp
qed

text \<open>
  The claim as stated counts the values that are not empty. A field holding the number 0
  is not empty, yet the scorer does not count it: for \<^verbatim>\<open>{"vendor": "Acme", "discount": 0}\<close>
  and \<open>ml_confidence = 1\<close> the scorer returns 0.7, while the stated formula gives 1.
\<close>

theorem calculate_confidence_zero_value:
  "calculate_confidence 1 [(''vendor'', PStr ''Acme''), (''discount'', PInt 0)] = 7 / 10
   \<and> spec_overall_confidence spec_non_empty 1
        [(''vendor'', PStr ''Acme''), (''discount'', PInt 0)] = 1
   \<and> calculate_confidence 1 [(''vendor'', PStr ''Acme''), (''discount'', PInt 0)]
       \<noteq> spec_overall_confidence spec_non_empty 1
           [(''vendor'', PStr ''Acme''), (''discount'', PInt 0)]"
  by (simp add: calculate_confidence_def spec_overall_confidence_def completeness_of_def
      has_key_def clamp01_def)

text \<open>
  C2. The level is high from 0.8 on, medium below 0.8 down to the configured threshold
  (0.6 by default) and low below both; every result \<^verbatim>\<open>process_document\<close> assembles carries
  the level of its overall confidence and asks for human review exactly when that level
  is low.
\<close>

theorem confidence_level_and_review:
  "(8 / 10 \<le> s \<longrightarrow> get_confidence_level cfg s = HIGH)
   \<and> (s < 8 / 10 \<and> CONFIDENCE_THRESHOLD cfg \<le> s \<longrightarrow> get_confidence_level cfg s = MEDIUM)
   \<and> (s < 8 / 10 \<and> s < CONFIDENCE_THRESHOLD cfg \<longrightarrow> get_confidence_level cfg s = LOW)
   \<and> CONFIDENCE_THRESHOLD default_Config = 6 / 10
   \<and> (process_document py co p text = Inr r \<longrightarrow>
        rr_confidence_level r
          = ConfidenceLevel_value (get_confidence_level (config p) (rr_overall_confidence r))
        \<and> (rr_needs_human_review r \<longleftrightarrow> rr_confidence_level r = ''low''))"
proof -
  have level: "(ConfidenceLevel_value l = ''low'') = (l = LOW)" for l
    by (cases l) simp_all
  have "rr_confidence_level r
          = ConfidenceLevel_value (get_confidence_level (config p) (rr_overall_confidence r))
        \<and> (rr_needs_human_review r \<longleftrightarrow> rr_confidence_level r = ''low'')"
    if "process_document py co p text = Inr r"
    using that
    by (auto simp add: process_document_def Let_def level
        split: prod.splits sum.splits option.splits)
  then show ?thesis
    by (simp add: get_confidence_level_def default_Config_def)
qed

lemma example_run_low:
  "process_document example_python example_collaborators example_processor [] =
     Inr \<lparr> rr_document_type = ''form'', rr_ml_confidence = 3 / 10,
           rr_overall_confidence = 42 / 100, rr_confidence_level = ''low'',
           rr_needs_human_review = True,
           rr_extracted_data = [(''vendor_name'', PStr ''Acme''), (''total'', PStr [])],
           rr_processing_time = ''0.01s'', rr_extraction_method = ''ollama'',
           rr_model_display_name = ''Llama 2'', rr_raw_text = [] \<rparr>"
  by (simp add: process_document_def example_collaborators_def example_processor_def
      post_process_extracted_data_def item_fields_def post_process_field_def dict_get_def
      calculate_confidence_def has_key_def get_confidence_level_def default_Config_def
      get_model_display_name_def)

theorem confidence_level_and_review_witness:
  "get_confidence_level default_Config (9 / 10) = HIGH
   \<and> get_confidence_level default_Config (7 / 10) = MEDIUM
   \<and> get_confidence_level default_Config (1 / 2) = LOW
   \<and> (\<exists>r. process_document example_python example_collaborators example_processor [] = Inr r
          \<and> rr_needs_human_review r \<and> rr_confidence_level r = ''low'')"
proof -
  have c: "CONFIDENCE_THRESHOLD default_Config = 6 / 10" by (simp add: default_Config_def)
  have "get_confidence_level default_Config (9 / 10) = HIGH"
    using confidence_level_and_review [of "9 / 10" default_Config] by simp
  moreover have "get_confidence_level default_Config (7 / 10) = MEDIUM"
    using confidence_level_and_review [of "7 / 10" default_Config] c by simp
  moreover have "get_confidence_level default_Config (1 / 2) = LOW"
    using confidence_level_and_review [of "1 / 2" default_Config] c by simp
  moreover have "\<exists>r. process_document example_python example_collaborators example_processor [] = Inr r
          \<and> rr_needs_human_review r \<and> rr_confidence_level r = ''low''"
    using confidence_level_and_review
      [of 0 default_Config example_python example_collaborators example_processor "[]"]
      example_run_low
    by simp
  ultimately show ?thesis by simp
qed

section \<open>Properties of the backend selection\<close>

text \<open>
  C3. The constructor probes Ollama, then Hugging Face, then OpenAI, stops at the first
  probe that succeeds and records that backend; when all three fail it raises the
  runtime error that no extraction method is available. After a successful construction
  the extraction method is one of the three backends, never \<^verbatim>\<open>none\<close>.
\<close>

theorem Processor_init_selects_first:
  "(ollama_tags_ok b \<longrightarrow>
      (\<exists>p. Processor_init cfg b = Inr p \<and> extraction_method p = ''ollama''
           \<and> probed p = [''ollama'']))
   \<and> (\<not> ollama_tags_ok b \<and> hf_pipeline_loads b \<longrightarrow>
      (\<exists>p. Processor_init cfg b = Inr p \<and> extraction_method p = ''huggingface''
           \<and> probed p = [''ollama'', ''huggingface'']))
   \<and> (\<not> ollama_tags_ok b \<and> \<not> hf_pipeline_loads b \<and> openai_usable cfg b \<longrightarrow>
      (\<exists>p. Processor_init cfg b = Inr p \<and> extraction_method p = ''openai''
           \<and> probed p = [''ollama'', ''huggingface'', ''openai'']))
   \<and> (\<not> ollama_tags_ok b \<and> \<not> hf_pipeline_loads b \<and> \<not> openai_usable cfg b \<longrightarrow>
      Processor_init cfg b = Inl (RuntimeError ''No AI extraction method available!''))
   \<and> (\<forall>p. Processor_init cfg b = Inr p \<longrightarrow>
      extraction_method p \<in> {''ollama'', ''huggingface'', ''openai''}
      \<and> extraction_method p \<noteq> ''none'')"
  by (auto simp add: Processor_init_def init_ollama_def init_huggingface_def init_openai_def
      openai_usable_def Let_def)

theorem Processor_init_selects_first_witness:
  "(\<exists>p. Processor_init default_Config (example_backends True True True) = Inr p
        \<and> extraction_method p = ''ollama'' \<and> probed p = [''ollama''])
   \<and> (\<exists>p. Processor_init default_Config (example_backends False True True) = Inr p
        \<and> extraction_method p = ''huggingface'' \<and> probed p = [''ollama'', ''huggingface''])
   \<and> (\<exists>p. Processor_init (default_Config\<lparr>OPENAI_API_KEY := Some ''sk-test''\<rparr>)
               (example_backends False False True) = Inr p
        \<and> extraction_method p = ''openai''
        \<and> probed p = [''ollama'', ''huggingface'', ''openai''])
   \<and> Processor_init default_Config (example_backends False False True)
       = Inl (RuntimeError ''No AI extraction method available!'')"
proof -
  have a: "\<exists>p. Processor_init default_Config (example_backends True True True) = Inr p
        \<and> extraction_method p = ''ollama'' \<and> probed p = [''ollama'']"
    using Processor_init_selects_first [of "example_backends True True True" default_Config]
    by (simp add: example_backends_def)
  have b: "\<exists>p. Processor_init default_Config (example_backends False True True) = Inr p
        \<and> extraction_method p = ''huggingface'' \<and> probed p = [''ollama'', ''huggingface'']"
    using Processor_init_selects_first [of "example_backends False True True" default_Config]
    by (simp add: example_backends_def)
  have c: "\<exists>p. Processor_init (default_Config\<lparr>OPENAI_API_KEY := Some ''sk-test''\<rparr>)
               (example_backends False False True) = Inr p
        \<and> extraction_method p = ''openai''
        \<and> probed p = [''ollama'', ''huggingface'', ''openai'']"
    using Processor_init_selects_first [of "example_backends False False True"
        "default_Config\<lparr>OPENAI_API_KEY := Some ''sk-test''\<rparr>"]
    by (simp add: example_backends_def openai_usable_def)
  have d: "Processor_init default_Config (example_backends False False True)
       = Inl (RuntimeError ''No AI extraction method available!'')"
    using Processor_init_selects_first [of "example_backends False False True" default_Config]
    by (simp add: example_backends_def openai_usable_def default_Config_def)
  from a b c d show ?thesis by simp
qed

section \<open>Properties of the response parser\<close>
















section \<open>Properties of the prompt catalog\<close>

lemma str_contains_prefix: "str_contains needle (needle @ post)"
proof (cases "needle @ post")
  case Nil
  then show ?thesis by simp
next
  case (Cons c cs)
  have "take (length needle) (needle @ post) = needle" by simp
  then have "take (length needle) (c # cs) = needle" by (simp only: Cons)
  then show ?thesis by (simp only: Cons str_contains.simps) simp
qed

lemma str_contains_embedded: "str_contains needle (pre @ needle @ post)"
proof (induction pre)
  case Nil
  then show ?case by (simp add: str_contains_prefix)
next
  case (Cons c pre)
  then show ?case by simp
qed

text \<open>
  C8. \<^verbatim>\<open>get_prompt\<close> returns the catalog's entry for the document type and the backend when
  there is one; otherwise the default entry for the backend when there is one; otherwise
  the synthesized template, which contains the document type. In every case it returns
  a template.
\<close>

theorem get_prompt_resolution:
  "(map_of (document_types ps) doc_type = Some doc_prompts \<and> map_of doc_prompts method = Some t
      \<longrightarrow> get_prompt ps doc_type method = t)
   \<and> ((map_of (document_types ps) doc_type = None
        \<or> (\<exists>dp. map_of (document_types ps) doc_type = Some dp \<and> map_of dp method = None))
       \<and> map_of (default_prompts ps) method = Some t
      \<longrightarrow> get_prompt ps doc_type method = t)
   \<and> ((map_of (document_types ps) doc_type = None
        \<or> (\<exists>dp. map_of (document_types ps) doc_type = Some dp \<and> map_of dp method = None))
       \<and> map_of (default_prompts ps) method = None
      \<longrightarrow> get_prompt ps doc_type method = fallback_prompt doc_type
          \<and> str_contains doc_type (get_prompt ps doc_type method))"
proof -
  have "str_contains doc_type (fallback_prompt doc_type)"
    unfolding fallback_prompt_def by (rule str_contains_embedded)
  then show ?thesis
    by (auto simp add: get_prompt_def)
qed

theorem get_prompt_resolution_witness:
  "get_prompt get_default_prompts ''invoice'' ''huggingface''
     = ''Extract invoice from: {text_preview}...'' @ [CHR 0x0A] @ ''JSON:''
   \<and> get_prompt get_default_prompts ''receipt'' ''ollama''
     = ''Extract information from: {text}'' @ [CHR 0x0A] @ ''Return JSON:''
   \<and> get_prompt get_default_prompts ''invoice'' ''claude''
     = ''Extract invoice information from: {text}'' @ [CHR 0x0A] @ ''Return JSON:''
   \<and> get_prompt get_default_prompts ''receipt'' ''claude''
     = ''Extract receipt information from: {text}'' @ [CHR 0x0A] @ ''Return JSON:''"
proof -
  have "get_prompt get_default_prompts ''invoice'' ''huggingface''
     = ''Extract invoice from: {text_preview}...'' @ [CHR 0x0A] @ ''JSON:''"
    using get_prompt_resolution [of get_default_prompts "''invoice''" _ "''huggingface''"]
    by (simp add: get_default_prompts_def)
  moreover have "get_prompt get_default_prompts ''receipt'' ''ollama''
     = ''Extract information from: {text}'' @ [CHR 0x0A] @ ''Return JSON:''"
    using get_prompt_resolution [of get_default_prompts "''receipt''" _ "''ollama''"]
    by (simp add: get_default_prompts_def)
  moreover have "get_prompt get_default_prompts ''invoice'' ''claude''
     = ''Extract invoice information from: {text}'' @ [CHR 0x0A] @ ''Return JSON:''"
    using get_prompt_resolution [of get_default_prompts "''invoice''" _ "''claude''"]
    by (simp add: get_default_prompts_def fallback_prompt_def)
  moreover have "get_prompt get_default_prompts ''receipt'' ''claude''
     = ''Extract receipt information from: {text}'' @ [CHR 0x0A] @ ''Return JSON:''"
    using get_prompt_resolution [of get_default_prompts "''receipt''" _ "''claude''"]
    by (simp add: get_default_prompts_def fallback_prompt_def)
  ultimately show ?thesis by simp
qed

section \<open>Properties of the prompt formatter\<close>

text \<open>
  C7. For a text of fewer than 300 characters \<^verbatim>\<open>format_prompt\<close> fills the template with
  the full text for the full-text placeholder and the same full text for the preview
  placeholder; for a text of 300 characters or more the preview placeholder receives
  exactly the first 300 characters.
\<close>

theorem format_prompt_preview:
  "(length text < 300 \<longrightarrow>
      format_vars text = [(''text'', text), (''text_preview'', text)]
      \<and> format_prompt py ps doc_type method text
          = substitute_placeholders py (get_prompt ps doc_type method) text text)
   \<and> (300 \<le> length text \<longrightarrow>
      format_vars text = [(''text'', text), (''text_preview'', take 300 text)]
      \<and> length (take 300 text) = 300
      \<and> format_prompt py ps doc_type method text
          = substitute_placeholders py (get_prompt ps doc_type method) text (take 300 text))"
proof -
  have short: "format_vars text = [(''text'', text), (''text_preview'', text)]"
    and short_take: "take 300 text = text" if "length text < 300"
    using that by (simp_all add: format_vars_def)
  have long: "format_vars text = [(''text'', text), (''text_preview'', take 300 text)]"
    if "300 \<le> length text"
    using that by (cases "length text = 300") (simp_all add: format_vars_def)
  have a: "format_prompt py ps doc_type method text
          = substitute_placeholders py (get_prompt ps doc_type method) text text"
    if "length text < 300"
    unfolding format_prompt_def substitute_placeholders_def Let_def
    by (simp only: short [OF that] short_take [OF that])
  have b: "format_prompt py ps doc_type method text
          = substitute_placeholders py (get_prompt ps doc_type method) text (take 300 text)"
    if "300 \<le> length text"
    unfolding format_prompt_def substitute_placeholders_def Let_def
    by (simp only: long [OF that])
  show ?thesis
    using short long a b by simp
qed

lemma example_format_preview:
  "example_format (''Extract invoice from: {text_preview}...'' @ [CHR 0x0A] @ ''JSON:'')
      [(''text'', ''abc''), (''text_preview'', ''abc'')]
   = Inr (''Extract invoice from: abc...'' @ [CHR 0x0A] @ ''JSON:'')"
  by simp

theorem format_prompt_preview_witness:
  "format_prompt example_python get_default_prompts ''invoice'' ''huggingface'' ''abc''
     = Inr (''Extract invoice from: abc...'' @ [CHR 0x0A] @ ''JSON:'')
   \<and> format_prompt example_python get_default_prompts ''invoice'' ''huggingface''
        (replicate 400 (CHR ''a''))
     = substitute_placeholders example_python
         (''Extract invoice from: {text_preview}...'' @ [CHR 0x0A] @ ''JSON:'')
         (replicate 400 (CHR ''a'')) (replicate 300 (CHR ''a''))"
proof -
  have t: "get_prompt get_default_prompts ''invoice'' ''huggingface''
           = ''Extract invoice from: {text_preview}...'' @ [CHR 0x0A] @ ''JSON:''"
    by (simp add: get_prompt_def get_default_prompts_def)
  have "format_prompt example_python get_default_prompts ''invoice'' ''huggingface'' ''abc''
     = Inr (''Extract invoice from: abc...'' @ [CHR 0x0A] @ ''JSON:'')"
    using format_prompt_preview
      [of "''abc''" example_python get_default_prompts "''invoice''" "''huggingface''"]
      example_format_preview
    by (simp add: t substitute_placeholders_def example_python_def)
  moreover have "format_prompt example_python get_default_prompts ''invoice'' ''huggingface''
        (replicate 400 (CHR ''a''))
     = substitute_placeholders example_python
         (''Extract invoice from: {text_preview}...'' @ [CHR 0x0A] @ ''JSON:'')
         (replicate 400 (CHR ''a'')) (replicate 300 (CHR ''a''))"
    using format_prompt_preview
      [of "replicate 400 (CHR ''a'')" example_python get_default_prompts "''invoice''"
        "''huggingface''"]
    by (simp add: t)
  ultimately show ?thesis by simp
qed

text \<open>
  C6. \<^verbatim>\<open>format_prompt\<close> returns the formatted template when \<^verbatim>\<open>str.format\<close> succeeds and
  falls back to literal replacement of \<^verbatim>\<open>{text}\<close> and \<^verbatim>\<open>{text_preview}\<close> when it raises
  \<^verbatim>\<open>KeyError\<close>; every other exception of \<^verbatim>\<open>str.format\<close> leaves \<^verbatim>\<open>format_prompt\<close> as it is.
  Python raises \<^verbatim>\<open>IndexError\<close> for a positional placeholder such as \<^verbatim>\<open>{}\<close> or \<^verbatim>\<open>{0}\<close> and
  \<^verbatim>\<open>ValueError\<close> for a single brace, so for such a template \<^verbatim>\<open>format_prompt\<close> raises
  instead of degrading.
\<close>

theorem format_prompt_only_catches_KeyError:
  "(py_format py (get_prompt ps doc_type method) (format_vars text) = Inr s \<longrightarrow>
      format_prompt py ps doc_type method text = Inr s)
   \<and> (py_format py (get_prompt ps doc_type method) (format_vars text) = Inl (KeyError k) \<longrightarrow>
      format_prompt py ps doc_type method text
        = Inr (py_replace ''{text_preview}'' (take 300 text)
                 (py_replace ''{text}'' text (get_prompt ps doc_type method))))
   \<and> (py_format py (get_prompt ps doc_type method) (format_vars text) = Inl e \<and> \<not> is_KeyError e \<longrightarrow>
      format_prompt py ps doc_type method text = Inl e)"
proof -
  have "format_prompt py ps doc_type method text = Inl e"
    if "py_format py (get_prompt ps doc_type method) (format_vars text) = Inl e"
      and "\<not> is_KeyError e"
    using that by (cases e) (simp_all add: format_prompt_def)
  then show ?thesis
    by (simp add: format_prompt_def)
qed

theorem format_prompt_only_catches_KeyError_witness:
  "format_prompt example_python
       \<lparr> document_types = [], default_prompts = [(''ollama'', ''Say {} for {text}'')] \<rparr>
       ''invoice'' ''ollama'' ''abc''
     = Inl (IndexError ''Replacement index 0 out of range for positional args tuple'')
   \<and> format_prompt example_python
       \<lparr> document_types = [], default_prompts = [(''ollama'', ''Fields of {text}: {'')] \<rparr>
       ''invoice'' ''ollama'' ''abc''
     = Inl (ValueError ''Single '{' encountered in format string'')
   \<and> format_prompt example_python
       \<lparr> document_types = [], default_prompts = [(''ollama'', ''{text} as {vendor}'')] \<rparr>
       ''invoice'' ''ollama'' ''abc''
     = Inr ''abc as {vendor}''"
proof -
  let ?ps = "\<lambda>t. \<lparr> document_types = [], default_prompts = [(''ollama'', t)] \<rparr>"
  have g: "get_prompt (?ps t) ''invoice'' ''ollama'' = t" for t
    by (simp add: get_prompt_def)
  have f1: "py_format example_python ''Say {} for {text}'' (format_vars ''abc'')
            = Inl (IndexError ''Replacement index 0 out of range for positional args tuple'')"
    by (simp add: example_python_def format_vars_def)
  have f2: "py_format example_python ''Fields of {text}: {'' (format_vars ''abc'')
            = Inl (ValueError ''Single '{' encountered in format string'')"
    by (simp add: example_python_def format_vars_def)
  have f3: "py_format example_python ''{text} as {vendor}'' (format_vars ''abc'')
            = Inl (KeyError ''vendor'')"
    by (simp add: example_python_def format_vars_def)
  have r: "py_replace ''{text_preview}'' (take 300 ''abc'') (py_replace ''{text}'' ''abc'' ''{text} as {vendor}'')
           = ''abc as {vendor}''"
    by (simp add: py_replace.simps)
  have "format_prompt example_python (?ps ''Say {} for {text}'') ''invoice'' ''ollama'' ''abc''
     = Inl (IndexError ''Replacement index 0 out of range for positional args tuple'')"
    using format_prompt_only_catches_KeyError
      [of example_python "?ps ''Say {} for {text}''" "''invoice''" "''ollama''" "''abc''"]
      f1
    by (simp add: g)
  moreover have "format_prompt example_python (?ps ''Fields of {text}: {'') ''invoice'' ''ollama'' ''abc''
     = Inl (ValueError ''Single '{' encountered in format string'')"
    using format_prompt_only_catches_KeyError
      [of example_python "?ps ''Fields of {text}: {''" "''invoice''" "''ollama''" "''abc''"]
      f2
    by (simp add: g)
  moreover have "format_prompt example_python (?ps ''{text} as {vendor}'') ''invoice'' ''ollama'' ''abc''
     = Inr ''abc as {vendor}''"
    using format_prompt_only_catches_KeyError
      [of example_python "?ps ''{text} as {vendor}''" "''invoice''" "''ollama''" "''abc''"]
      f3 r
    by (simp add: g)
  ultimately show ?thesis by simp
qed

section \<open>Properties of the text extraction\<close>

lemma dropWhile_Nil_iff: "(dropWhile P s = []) = list_all P s"
  by (simp add: list_all_iff)

lemma py_strip_chars_Nil_iff: "(py_strip_chars P s = []) = list_all P s"
proof
  assume "py_strip_chars P s = []"
  then have e: "dropWhile P (rev (dropWhile P s)) = []"
    by (simp add: py_strip_chars_def)
  show "list_all P s"
  proof (rule ccontr)
    assume "\<not> list_all P s"
    then have ne: "dropWhile P s \<noteq> []" by (simp add: list_all_iff)
    then have "\<not> P (hd (dropWhile P s))" by (rule hd_dropWhile)
    moreover have "hd (dropWhile P s) \<in> set (rev (dropWhile P s))" using ne by simp
    moreover have "list_all P (rev (dropWhile P s))" using e by (simp only: dropWhile_Nil_iff)
    ultimately show False by (simp add: list_all_iff)
  qed
next
  assume "list_all P s"
  then have "dropWhile P s = []" by (simp add: list_all_iff)
  then show "py_strip_chars P s = []"
    unfolding py_strip_chars_def by (simp only: rev.simps dropWhile.simps)
qed

lemma py_strip_Nil_iff: "(py_strip s = []) = list_all py_isspace s"
  by (simp add: py_strip_def py_strip_chars_Nil_iff)

lemma image_kind_branch:
  assumes "file_ext \<in> set image_kinds"
  shows "extract_text_from_file fs file_path file_ext =
     (case run_ocr fs file_path of
        OcrText text \<Rightarrow>
          Inr (if py_strip text \<noteq> [] then text else ''No text found in image'')
      | OcrImportError \<Rightarrow>
          Inl (HTTPException 500 ''pytesseract/PIL not installed for image processing'')
      | OcrFailed error_msg \<Rightarrow>
          Inr (if str_contains ''Corrupt JPEG'' error_msg
                  \<or> str_contains ''premature end'' error_msg
               then ''This image appears to be corrupted. Please try uploading a different image or retaking the photo.''
               else ''Unable to process this image: '' @ error_msg))"
proof -
  have "file_ext \<noteq> ''.txt''" "file_ext \<noteq> ''.pdf''"
    using assms by (auto simp add: image_kinds_def)
  with assms show ?thesis by (simp add: extract_text_from_file_def)
qed

text \<open>
  C9 (as amended). For an image kind (\<^verbatim>\<open>.png\<close>, \<^verbatim>\<open>.jpg\<close>, \<^verbatim>\<open>.jpeg\<close>) text extraction returns a
  string whenever the OCR libraries can be imported: the recognised text, the sentinel
  \<^verbatim>\<open>No text found in image\<close> when that text is empty or all whitespace, the fixed
  corruption message when the error message contains \<^verbatim>\<open>Corrupt JPEG\<close> or
  \<^verbatim>\<open>premature end\<close>, and \<^verbatim>\<open>Unable to process this image:\<close> with the message for any other
  error. When importing the libraries fails it raises the HTTP error 500.
\<close>

theorem image_text_extraction:
  "file_ext \<in> set image_kinds \<longrightarrow>
     (run_ocr fs file_path \<noteq> OcrImportError \<longrightarrow>
        (\<exists>s. extract_text_from_file fs file_path file_ext = Inr s))
     \<and> (run_ocr fs file_path = OcrText t \<and> list_all py_isspace t \<longrightarrow>
        extract_text_from_file fs file_path file_ext = Inr ''No text found in image'')
     \<and> (run_ocr fs file_path = OcrText t \<and> \<not> list_all py_isspace t \<longrightarrow>
        extract_text_from_file fs file_path file_ext = Inr t)
     \<and> (run_ocr fs file_path = OcrFailed msg
          \<and> (str_contains ''Corrupt JPEG'' msg \<or> str_contains ''premature end'' msg) \<longrightarrow>
        extract_text_from_file fs file_path file_ext
          = Inr ''This image appears to be corrupted. Please try uploading a different image or retaking the photo.'')
     \<and> (run_ocr fs file_path = OcrFailed msg
          \<and> \<not> (str_contains ''Corrupt JPEG'' msg \<or> str_contains ''premature end'' msg) \<longrightarrow>
        extract_text_from_file fs file_path file_ext
          = Inr (''Unable to process this image: '' @ msg))
     \<and> (run_ocr fs file_path = OcrImportError \<longrightarrow>
        extract_text_from_file fs file_path file_ext
          = Inl (HTTPException 500 ''pytesseract/PIL not installed for image processing''))"
proof
  assume k: "file_ext \<in> set image_kinds"
  note b = image_kind_branch [OF k, of fs file_path]
  have "\<exists>s. extract_text_from_file fs file_path file_ext = Inr s"
    if "run_ocr fs file_path \<noteq> OcrImportError"
    using that by (cases "run_ocr fs file_path") (simp_all add: b)
  moreover have "extract_text_from_file fs file_path file_ext = Inr ''No text found in image''"
    if "run_ocr fs file_path = OcrText t" "list_all py_isspace t"
    using that by (simp add: b py_strip_Nil_iff)
  moreover have "extract_text_from_file fs file_path file_ext = Inr t"
    if "run_ocr fs file_path = OcrText t" "\<not> list_all py_isspace t"
    using that by (simp add: b py_strip_Nil_iff)
  moreover have "extract_text_from_file fs file_path file_ext
          = Inr ''This image appears to be corrupted. Please try uploading a different image or retaking the photo.''"
    if "run_ocr fs file_path = OcrFailed msg"
      "str_contains ''Corrupt JPEG'' msg \<or> str_contains ''premature end'' msg"
    using that by (simp add: b)
  moreover have "extract_text_from_file fs file_path file_ext
          = Inr (''Unable to process this image: '' @ msg)"
    if "run_ocr fs file_path = OcrFailed msg"
      "\<not> (str_contains ''Corrupt JPEG'' msg \<or> str_contains ''premature end'' msg)"
    using that by (simp add: b)
  moreover have "extract_text_from_file fs file_path file_ext
          = Inl (HTTPException 500 ''pytesseract/PIL not installed for image processing'')"
    if "run_ocr fs file_path = OcrImportError"
    using that by (simp add: b)
  ultimately show "(run_ocr fs file_path \<noteq> OcrImportError \<longrightarrow>
        (\<exists>s. extract_text_from_file fs file_path file_ext = Inr s))
     \<and> (run_ocr fs file_path = OcrText t \<and> list_all py_isspace t \<longrightarrow>
        extract_text_from_file fs file_path file_ext = Inr ''No text found in image'')
     \<and> (run_ocr fs file_path = OcrText t \<and> \<not> list_all py_isspace t \<longrightarrow>
        extract_text_from_file fs file_path file_ext = Inr t)
     \<and> (run_ocr fs file_path = OcrFailed msg
          \<and> (str_contains ''Corrupt JPEG'' msg \<or> str_contains ''premature end'' msg) \<longrightarrow>
        extract_text_from_file fs file_path file_ext
          = Inr ''This image appears to be corrupted. Please try uploading a different image or retaking the photo.'')
     \<and> (run_ocr fs file_path = OcrFailed msg
          \<and> \<not> (str_contains ''Corrupt JPEG'' msg \<or> str_contains ''premature end'' msg) \<longrightarrow>
        extract_text_from_file fs file_path file_ext
          = Inr (''Unable to process this image: '' @ msg))
     \<and> (run_ocr fs file_path = OcrImportError \<longrightarrow>
        extract_text_from_file fs file_path file_ext
          = Inl (HTTPException 500 ''pytesseract/PIL not installed for image processing''))"
    by blast
qed

lemma example_isspace: "list_all py_isspace ([CHR 0x0A] @ ''  '')"
  by (simp add: py_isspace_def)

lemma example_not_isspace: "\<not> list_all py_isspace ''Total 2.50''"
  by (simp add: py_isspace_def)

theorem image_text_extraction_witness:
  "extract_text_from_file example_files ''blank.png'' ''.png'' = Inr ''No text found in image''
   \<and> extract_text_from_file example_files ''receipt.jpg'' ''.jpg'' = Inr ''Total 2.50''
   \<and> extract_text_from_file example_files ''broken.jpg'' ''.jpg''
       = Inr ''This image appears to be corrupted. Please try uploading a different image or retaking the photo.''
   \<and> extract_text_from_file example_files ''odd.jpeg'' ''.jpeg''
       = Inr ''Unable to process this image: cannot identify image file''
   \<and> extract_text_from_file example_files ''scan.png'' ''.png''
       = Inl (HTTPException 500 ''pytesseract/PIL not installed for image processing'')"
proof -
  have k: "''.png'' \<in> set image_kinds" "''.jpg'' \<in> set image_kinds" "''.jpeg'' \<in> set image_kinds"
    by (simp_all add: image_kinds_def)
  have "extract_text_from_file example_files ''blank.png'' ''.png'' = Inr ''No text found in image''"
    using image_text_extraction [of "''.png''" example_files "''blank.png''" "[CHR 0x0A] @ ''  ''"]
      k example_isspace
    by (simp add: example_files_def)
  moreover have "extract_text_from_file example_files ''receipt.jpg'' ''.jpg'' = Inr ''Total 2.50''"
    using image_text_extraction [of "''.jpg''" example_files "''receipt.jpg''" "''Total 2.50''"]
      k example_not_isspace
    by (simp add: example_files_def)
  moreover have "extract_text_from_file example_files ''broken.jpg'' ''.jpg''
       = Inr ''This image appears to be corrupted. Please try uploading a different image or retaking the photo.''"
    using image_text_extraction [of "''.jpg''" example_files "''broken.jpg''" _
        "''Corrupt JPEG data: premature end of data segment''"] k
    by (simp add: example_files_def)
  moreover have "extract_text_from_file example_files ''odd.jpeg'' ''.jpeg''
       = Inr ''Unable to process this image: cannot identify image file''"
    using image_text_extraction [of "''.jpeg''" example_files "''odd.jpeg''" _
        "''cannot identify image file''"] k
    by (simp add: example_files_def)
  moreover have "extract_text_from_file example_files ''scan.png'' ''.png''
       = Inl (HTTPException 500 ''pytesseract/PIL not installed for image processing'')"
    using image_text_extraction [of "''.png''" example_files "''scan.png''"] k
    by (simp add: example_files_def)
  ultimately show ?thesis by simp
qed

text \<open>
  The claim as stated promises a string for every image. When \<^verbatim>\<open>pytesseract\<close> or
  \<^verbatim>\<open>PIL\<close> cannot be imported the image branch raises the HTTP error 500 instead.
\<close>

theorem image_extraction_raises_without_ocr:
  "''.png'' \<in> set image_kinds
   \<and> extract_text_from_file
        \<lparr> read_text_utf8 = (\<lambda>path. Inr []), read_pdf = (\<lambda>path. PdfPages []),
          run_ocr = (\<lambda>path. OcrImportError) \<rparr>
        ''uploads/scan.png'' ''.png''
      = Inl (HTTPException 500 ''pytesseract/PIL not installed for image processing'')"
  by (simp add: extract_text_from_file_def image_kinds_def)

section \<open>Properties of the batch service\<close>

lemma error_result_refused:
  "error_result_for e filename = Inl (ValidationError ''extraction_method'')"
  by (simp add: error_result_for_def ProcessingResult_init_def ConfidenceLevel_of_def
      ExtractionMethod_of_def)

lemma batch_loop_aborts:
  assumes "\<forall>j < length pre. \<exists>r. try_document sv (i + j) (pre ! j) = Inr r"
    and "try_document sv (i + length pre) doc = Inl e"
  shows "batch_loop sv i (pre @ doc # post) acc = Inl (ValidationError ''extraction_method'')"
  using assms
proof (induction pre arbitrary: i acc)
  case Nil
  then show ?case by (simp add: error_result_refused)
next
  case (Cons d pre)
  from Cons.prems(1) obtain r where r: "try_document sv i d = Inr r"
    by fastforce
  have "\<forall>j < length pre. \<exists>r. try_document sv (Suc i + j) (pre ! j) = Inr r"
  proof (intro allI impI)
    fix j assume "j < length pre"
    then have "Suc j < length (d # pre)" by simp
    with Cons.prems(1) have "\<exists>r. try_document sv (i + Suc j) ((d # pre) ! Suc j) = Inr r"
      by blast
    then show "\<exists>r. try_document sv (Suc i + j) (pre ! j) = Inr r" by simp
  qed
  moreover have "try_document sv (Suc i + length pre) doc = Inl e"
    using Cons.prems(2) by simp
  ultimately have "batch_loop sv (Suc i) (pre @ doc # post) (acc @ [r])
                   = Inl (ValidationError ''extraction_method'')"
    by (rule Cons.IH)
  with r show ?case by simp
qed

text \<open>When the batch loop comes to its end, it has one result per document, and the
  batch result counts them by their \<^verbatim>\<open>error\<close> key.\<close>

lemma batch_loop_length:
  "batch_loop sv i files acc = Inr rs \<Longrightarrow> length rs = length acc + length files"
proof (induction files arbitrary: i acc)
  case Nil
  then show ?case by simp
next
  case (Cons doc files)
  then show ?case
    by (auto split: sum.splits)
qed

lemma batch_result_counts:
  assumes "process_batch_documents sv files = Inr b"
  shows "total_documents b = length files \<and> length (results b) = length files
         \<and> successful b = length (filter (\<lambda>r. \<not> has_key (pr_extracted_data r) ''error'') (results b))
         \<and> failed b = length (filter (\<lambda>r. has_key (pr_extracted_data r) ''error'') (results b))
         \<and> successful b + failed b = length files"
proof -
  from assms obtain rs where rs: "batch_loop sv 0 files [] = Inr rs"
    and b: "b = \<lparr> batch_id = uuid4 sv, total_documents = length files,
                  successful = length (filter (\<lambda>r. \<not> has_key (pr_extracted_data r) ''error'') rs),
                  failed = length (filter (\<lambda>r. has_key (pr_extracted_data r) ''error'') rs),
                  results = rs, processed_at = time_now sv \<rparr>"
    by (auto simp add: process_batch_documents_def split: sum.splits)
  have len: "length rs = length files"
    using batch_loop_length [OF rs] by simp
  have "length (filter (\<lambda>r. \<not> has_key (pr_extracted_data r) ''error'') rs)
        + length (filter (\<lambda>r. has_key (pr_extracted_data r) ''error'') rs) = length rs"
    using sum_length_filter_compl [of "\<lambda>r. has_key (pr_extracted_data r) ''error''" rs]
    by simp
  with b len show ?thesis by simp
qed

text \<open>
  C4. The claim is that a document whose processing raises gets a synthetic failed
  result and the batch goes on. The code builds that result with the extraction method
  \<^verbatim>\<open>"none"\<close>, which \<^verbatim>\<open>ExtractionMethod\<close> does not declare, so constructing it raises a
  validation error inside the \<^verbatim>\<open>except\<close> branch: when the documents before it went
  through and one document raises, the whole batch ends with that validation error.
\<close>

theorem batch_aborts_on_failed_document:
  assumes "\<forall>j < length pre. \<exists>r. try_document sv j (pre ! j) = Inr r"
    and "try_document sv (length pre) doc = Inl e"
  shows "process_batch_documents sv (pre @ doc # post)
         = Inl (ValidationError ''extraction_method'')"
proof -
  have "batch_loop sv 0 (pre @ doc # post) [] = Inl (ValidationError ''extraction_method'')"
    using assms by (intro batch_loop_aborts) simp_all
  then show ?thesis by (simp add: process_batch_documents_def)
qed

lemma example_txt_info:
  "analyze_file example_service content ''a.txt''
   = (if length content > MAX_FILE_SIZE then Inl (ValueError ''File size exceeds limit'')
      else Inr \<lparr> fi_filename = ''a.txt'', fi_size_bytes = length content,
                 fi_file_type = ''.txt'', fi_is_camera_capture = False \<rparr>)"
  by (simp add: analyze_file_def validate_file_def path_suffix_def path_name_def py_rfind_def
      py_lower_def py_lower_char_def ALLOWED_TYPES_def example_service_def Let_def)

lemma example_docx_refused:
  "analyze_file example_service content ''notes.docx''
   = Inl (ValueError ''File type .docx not supported. Use: .txt, .pdf, .png, .jpg, .jpeg'')"
  by (simp add: analyze_file_def validate_file_def path_suffix_def path_name_def py_rfind_def
      py_lower_def py_lower_char_def ALLOWED_TYPES_def example_service_def Let_def)

lemma example_run_medium:
  "process_document example_python example_collaborators example_processor ''Invoice 42 Total 10'' =
     Inr \<lparr> rr_document_type = ''invoice'', rr_ml_confidence = 9 / 10,
           rr_overall_confidence = 66 / 100, rr_confidence_level = ''medium'',
           rr_needs_human_review = False,
           rr_extracted_data = [(''vendor_name'', PStr ''Acme''), (''total'', PStr [])],
           rr_processing_time = ''0.01s'', rr_extraction_method = ''ollama'',
           rr_model_display_name = ''Llama 2'', rr_raw_text = ''Invoice 42 Total 10'' \<rparr>"
  by (simp add: process_document_def example_collaborators_def example_processor_def
      post_process_extracted_data_def item_fields_def post_process_field_def dict_get_def
      calculate_confidence_def has_key_def get_confidence_level_def default_Config_def
      get_model_display_name_def)

lemma example_txt_processed:
  "process_single_document example_service ''abc'' ''a.txt'' =
     Inr \<lparr> pr_document_type = INVOICE, pr_ml_confidence = 9 / 10,
           pr_overall_confidence = 66 / 100, pr_confidence_level = MEDIUM,
           pr_extraction_method = OLLAMA, pr_model_display_name = ''Llama 2'',
           pr_processing_time = ''0.01s'', pr_needs_human_review = False,
           pr_extracted_data = [(''vendor_name'', PStr ''Acme''), (''total'', PStr [])],
           pr_uploaded_file = Some ''a.txt'', pr_file_size = Some 3,
           pr_file_type = Some ''.txt'', pr_raw_text = Some ''Invoice 42 Total 10'' \<rparr>"
proof -
  have p: "processor_process_document example_service ''Invoice 42 Total 10''
           = process_document example_python example_collaborators example_processor
               ''Invoice 42 Total 10''"
    by (simp add: example_service_def)
  have s: "save_temp_file example_service ''abc'' ''a.txt'' = Inr ''uploads/a.txt''"
    "extract_text example_service ''uploads/a.txt'' ''.txt'' = Inr ''Invoice 42 Total 10''"
    by (simp_all add: example_service_def)
  show ?thesis
    by (simp add: process_single_document_def example_txt_info MAX_FILE_SIZE_def s p
        example_run_medium convert_to_processing_result_def DocumentType_of_def
        ProcessingResult_init_def ConfidenceLevel_of_def ExtractionMethod_of_def)
qed

text \<open>The lenient service processes a single document as the example service does.\<close>

lemma lenient_fields:
  "save_temp_file lenient_service = save_temp_file example_service"
  "extract_text lenient_service = extract_text example_service"
  "processor_process_document lenient_service = processor_process_document example_service"
  "size_message lenient_service = size_message example_service"
  by (simp_all add: lenient_service_def)

lemma lenient_single_document:
  "process_single_document lenient_service file_content filename
   = process_single_document example_service file_content filename"
  unfolding process_single_document_def analyze_file_def validate_file_def lenient_fields
  by (rule refl)

lemma example_docx_single:
  "process_single_document example_service file_content ''notes.docx''
   = Inl (ValueError ''File type .docx not supported. Use: .txt, .pdf, .png, .jpg, .jpeg'')"
  by (simp add: process_single_document_def example_docx_refused)

text \<open>With a model class that accepts \<^verbatim>\<open>batch_index\<close>, a batch of one text file goes
  through.\<close>

lemma example_batch_of_one:
  "\<exists>b. process_batch_documents lenient_service [(''abc'', ''a.txt'')] = Inr b
       \<and> total_documents b = 1 \<and> successful b = 1 \<and> failed b = 0"
proof -
  have "try_document lenient_service 0 (''abc'', ''a.txt'')
        = process_single_document example_service ''abc'' ''a.txt''"
    by (simp add: try_document_def lenient_single_document example_txt_processed)
      (simp add: lenient_service_def)
  then show ?thesis
    by (simp add: process_batch_documents_def example_txt_processed has_key_def)
qed

theorem batch_aborts_on_failed_document_witness:
  \<open>try_document example_service 0 (''abc'', ''a.txt'')
     = Inl (ValueError ''"ProcessingResult" object has no field "batch_index"'')
   \<and> process_batch_documents example_service
        [(''abc'', ''a.txt''), (''xyz'', ''notes.docx''), (''abc'', ''a.txt'')]
      = Inl (ValidationError ''extraction_method'')
   \<and> (\<exists>r. try_document lenient_service 0 (''abc'', ''a.txt'') = Inr r)
   \<and> try_document lenient_service 1 (''xyz'', ''notes.docx'')
       = Inl (ValueError ''File type .docx not supported. Use: .txt, .pdf, .png, .jpg, .jpeg'')
   \<and> process_batch_documents lenient_service
        [(''abc'', ''a.txt''), (''xyz'', ''notes.docx''), (''abc'', ''a.txt'')]
      = Inl (ValidationError ''extraction_method'')\<close>
proof -
  have first: \<open>try_document example_service 0 (''abc'', ''a.txt'')
     = Inl (ValueError ''"ProcessingResult" object has no field "batch_index"'')\<close>
    by (simp add: try_document_def example_txt_processed) (simp add: example_service_def)
  have strict: "process_batch_documents example_service
          ([] @ (''abc'', ''a.txt'') # [(''xyz'', ''notes.docx''), (''abc'', ''a.txt'')])
        = Inl (ValidationError ''extraction_method'')"
    using first by (intro batch_aborts_on_failed_document) simp_all
  have a: "\<exists>r. try_document lenient_service 0 (''abc'', ''a.txt'') = Inr r"
    by (simp add: try_document_def lenient_single_document example_txt_processed)
      (simp add: lenient_service_def)
  have b: "try_document lenient_service 1 (''xyz'', ''notes.docx'')
           = Inl (ValueError ''File type .docx not supported. Use: .txt, .pdf, .png, .jpg, .jpeg'')"
    by (simp add: try_document_def lenient_single_document example_docx_single)
  have pre: "\<forall>j < length [(''abc'', ''a.txt'')].
               \<exists>r. try_document lenient_service j ([(''abc'', ''a.txt'')] ! j) = Inr r"
    using a by simp
  have "process_batch_documents lenient_service
          ([(''abc'', ''a.txt'')] @ (''xyz'', ''notes.docx'') # [(''abc'', ''a.txt'')])
        = Inl (ValidationError ''extraction_method'')"
    using pre b by (intro batch_aborts_on_failed_document) simp_all
  with first strict a b show ?thesis by simp
qed

section \<open>Properties of the post-processing\<close>

lemma dict_get_set: "dict_get (dict_set d k v) k' = (if k' = k then Some v else dict_get d k')"
  by (simp add: dict_get_def dict_set_def update_conv')

lemma has_key_set: "has_key (dict_set d k v) k' = (k' = k \<or> has_key d k')"
  by (simp add: has_key_def dict_set_def update_conv')

lemma has_key_get: "has_key d k = (dict_get d k \<noteq> None)"
  by (simp add: has_key_def dict_get_def)

text \<open>The loop body raises, or returns the dictionary as it was, or with the field
  rewritten, or with the field rewritten and the sibling key set to the field's old
  string; the last only for a field that holds a parseable, non-empty array.\<close>

lemma post_process_field_cases:
  "(\<exists>e. post_process_field py f d = Inl e)
   \<or> post_process_field py f d = Inr d
   \<or> (\<exists>v. post_process_field py f d = Inr (dict_set d f v) \<and> has_key d f)
   \<or> (\<exists>v raw. post_process_field py f d
                 = Inr (dict_set (dict_set d f v) (raw_key f) (PStr raw))
         \<and> dict_get d f = Some (PStr raw) \<and> holds_json_array py d f)"
  by (auto simp add: post_process_field_def holds_json_array_def raw_key_def has_key_get Let_def
      split: option.splits py_value.splits sum.splits)

lemma post_process_field_other:
  assumes "post_process_field py f d = Inr d'" and "k \<noteq> f"
    and "k = raw_key f \<longrightarrow> \<not> holds_json_array py d f"
  shows "dict_get d' k = dict_get d k"
  using post_process_field_cases [of py f d] assms by (auto simp add: dict_get_set)

lemma post_process_field_keeps:
  assumes "post_process_field py f d = Inr d'" and "has_key d k"
  shows "has_key d' k"
  using post_process_field_cases [of py f d] assms by (auto simp add: has_key_set)

lemma post_process_field_new:
  assumes "post_process_field py f d = Inr d'" and "has_key d' k" and "\<not> has_key d k"
  shows "k = raw_key f \<and> holds_json_array py d f"
  using post_process_field_cases [of py f d] assms
  by (auto simp add: has_key_get dict_get_set split: if_splits)

lemma holds_json_arrayD:
  assumes "holds_json_array py d f"
  obtains raw m items_array where "dict_get d f = Some (PStr raw)"
    and "re_search_brackets raw = Some m" and "json_loads py m = Inr (PList items_array)"
    and "items_array \<noteq> []"
proof (cases "dict_get d f")
  case None
  with assms show ?thesis by (simp add: holds_json_array_def)
next
  case (Some v)
  show ?thesis
  proof (cases v)
    case (PStr raw)
    show ?thesis
    proof (cases "re_search_brackets raw")
      case None
      with assms Some PStr show ?thesis by (simp add: holds_json_array_def)
    next
      case m: (Some m)
      show ?thesis
      proof (cases "json_loads py m")
        case (Inl e)
        with assms Some PStr m show ?thesis by (simp add: holds_json_array_def)
      next
        case l: (Inr parsed)
        show ?thesis
        proof (cases parsed)
          case (PList items_array)
          with assms Some PStr m l have "items_array \<noteq> []"
            by (simp add: holds_json_array_def)
          with Some PStr m l PList that show ?thesis by simp
        qed (use assms Some PStr m l in \<open>simp_all add: holds_json_array_def\<close>)
      qed
    qed
  qed (use assms Some in \<open>simp_all add: holds_json_array_def\<close>)
qed

lemma post_process_field_sibling:
  assumes "holds_json_array py d f"
  shows "\<exists>d'. post_process_field py f d = Inr d' \<and> dict_get d' (raw_key f) = dict_get d f"
proof -
  from assms obtain raw m items_array where "dict_get d f = Some (PStr raw)"
    and "re_search_brackets raw = Some m" and "json_loads py m = Inr (PList items_array)"
    and "items_array \<noteq> []"
    by (rule holds_json_arrayD)
  then show ?thesis
    by (simp add: post_process_field_def raw_key_def dict_get_set)
qed

lemma holds_json_array_transfer:
  "dict_get d' f = dict_get d f \<Longrightarrow> holds_json_array py d' f \<Longrightarrow> holds_json_array py d f"
  by (simp add: holds_json_array_def)

lemma raw_key_ending: "take 4 (rev (raw_key f)) = ''war_''"
  by (simp add: raw_key_def)

lemma item_field_ending: "x \<in> set item_fields \<Longrightarrow> take 4 (rev x) \<noteq> ''war_''"
  by (auto simp add: item_fields_def)

lemma raw_key_not_item: "raw_key f \<notin> set item_fields"
  using raw_key_ending [of f] item_field_ending [of "raw_key f"] by blast

lemma raw_key_inj: "(raw_key f = raw_key g) = (f = g)"
  by (simp add: raw_key_def)

text \<open>A round of the loop leaves every other list-like field as it was.\<close>

lemma post_process_field_other_field:
  assumes "post_process_field py f d = Inr d'" and "g \<noteq> f" and "g \<in> set item_fields"
  shows "dict_get d' g = dict_get d g"
proof -
  have "g \<noteq> raw_key f" using assms(3) raw_key_not_item [of f] by auto
  with post_process_field_other [OF assms(1,2)] show ?thesis by simp
qed

text \<open>Post-processing keeps the dictionary well formed: no key occurs twice.\<close>

lemma dict_set_ok: "dict_ok d \<Longrightarrow> dict_ok (dict_set d k v)"
  by (simp add: dict_ok_def dict_set_def distinct_update)

lemma post_process_field_ok:
  assumes "post_process_field py f d = Inr d'" and "dict_ok d"
  shows "dict_ok d'"
  using post_process_field_cases [of py f d] assms by (auto simp add: dict_set_ok)

lemma post_process_loop_ok:
  assumes "dict_ok d"
  shows "dict_ok (fst (post_process_loop py fs d))"
  using assms
proof (induction fs arbitrary: d)
  case Nil
  then show ?case by simp
next
  case (Cons f fs)
  show ?case
  proof (cases "post_process_field py f d")
    case (Inl e)
    with Cons.prems show ?thesis by simp
  next
    case (Inr d1)
    then have "dict_ok d1" using Cons.prems by (rule post_process_field_ok)
    then have "dict_ok (fst (post_process_loop py fs d1))" by (rule Cons.IH)
    with Inr show ?thesis by simp
  qed
qed

lemma post_process_ok:
  "dict_ok d \<Longrightarrow> dict_ok (fst (post_process_extracted_data py d))"
  by (simp add: post_process_extracted_data_def post_process_loop_ok)

text \<open>The loop over any duplicate-free part of the field list.\<close>

lemma loop_frame:
  assumes "k \<notin> set fs" and "\<forall>f \<in> set fs. k = raw_key f \<longrightarrow> \<not> holds_json_array py d f"
    and "distinct fs" and "set fs \<subseteq> set item_fields"
  shows "dict_get (fst (post_process_loop py fs d)) k = dict_get d k"
  using assms
proof (induction fs arbitrary: d)
  case Nil
  then show ?case by simp
next
  case (Cons f fs)
  show ?case
  proof (cases "post_process_field py f d")
    case (Inl e)
    then show ?thesis by simp
  next
    case (Inr d1)
    have "k \<noteq> f" using Cons.prems(1) by simp
    moreover have "k = raw_key f \<longrightarrow> \<not> holds_json_array py d f"
      using Cons.prems(2) by simp
    ultimately have same: "dict_get d1 k = dict_get d k"
      using Inr by (intro post_process_field_other) simp_all
    have later: "\<forall>g \<in> set fs. k = raw_key g \<longrightarrow> \<not> holds_json_array py d1 g"
    proof (intro ballI impI)
      fix g assume g: "g \<in> set fs" "k = raw_key g"
      then have no: "\<not> holds_json_array py d g" using Cons.prems(2) by simp
      have "g \<noteq> f" using g(1) Cons.prems(3) by auto
      moreover have "g \<in> set item_fields" using g(1) Cons.prems(4) by auto
      ultimately have "dict_get d1 g = dict_get d g"
        using Inr by (intro post_process_field_other_field) simp_all
      then show "\<not> holds_json_array py d1 g"
        using no holds_json_array_transfer by blast
    qed
    have "dict_get (fst (post_process_loop py fs d1)) k = dict_get d1 k"
      using Cons.prems(1,3,4) later by (intro Cons.IH) simp_all
    with same Inr show ?thesis by simp
  qed
qed

lemma loop_keeps:
  assumes "has_key d k"
  shows "has_key (fst (post_process_loop py fs d)) k"
  using assms
proof (induction fs arbitrary: d)
  case Nil
  then show ?case by simp
next
  case (Cons f fs)
  show ?case
  proof (cases "post_process_field py f d")
    case (Inl e)
    with Cons.prems show ?thesis by simp
  next
    case (Inr d1)
    then have "has_key d1 k" using Cons.prems by (rule post_process_field_keeps)
    then have "has_key (fst (post_process_loop py fs d1)) k" by (rule Cons.IH)
    with Inr show ?thesis by simp
  qed
qed

lemma loop_new:
  assumes "has_key (fst (post_process_loop py fs d)) k"
    and "\<not> has_key d k" and "distinct fs" and "set fs \<subseteq> set item_fields"
  shows "\<exists>f \<in> set fs. k = raw_key f \<and> holds_json_array py d f"
  using assms
proof (induction fs arbitrary: d)
  case Nil
  then show ?case by simp
next
  case (Cons f fs)
  show ?case
  proof (cases "post_process_field py f d")
    case (Inl e)
    with Cons.prems(1,2) show ?thesis by simp
  next
    case (Inr d1)
    show ?thesis
    proof (cases "has_key d1 k")
      case True
      with Inr Cons.prems(2) have "k = raw_key f \<and> holds_json_array py d f"
        by (intro post_process_field_new)
      then show ?thesis by simp
    next
      case False
      have "has_key (fst (post_process_loop py fs d1)) k"
        using Cons.prems(1) Inr by simp
      then have "\<exists>g \<in> set fs. k = raw_key g \<and> holds_json_array py d1 g"
        using False Cons.prems(3,4) by (intro Cons.IH) simp_all
      then obtain g where g: "g \<in> set fs" "k = raw_key g" "holds_json_array py d1 g"
        by blast
      have "g \<noteq> f" using g(1) Cons.prems(3) by auto
      moreover have "g \<in> set item_fields" using g(1) Cons.prems(4) by auto
      ultimately have "dict_get d1 g = dict_get d g"
        using Inr by (intro post_process_field_other_field) simp_all
      then have "holds_json_array py d g"
        using g(3) by (rule holds_json_array_transfer)
      with g show ?thesis by auto
    qed
  qed
qed

lemma loop_sibling:
  assumes "f \<in> set fs" and "holds_json_array py d f" and "distinct fs"
    and "set fs \<subseteq> set item_fields" and "snd (post_process_loop py fs d) = None"
  shows "dict_get (fst (post_process_loop py fs d)) (raw_key f) = dict_get d f"
  using assms
proof (induction fs arbitrary: d)
  case Nil
  then show ?case by simp
next
  case (Cons g fs)
  show ?case
  proof (cases "g = f")
    case True
    from Cons.prems(2) obtain d1 where d1: "post_process_field py f d = Inr d1"
      and sib: "dict_get d1 (raw_key f) = dict_get d f"
      using post_process_field_sibling by blast
    have "raw_key f \<notin> set fs"
      using Cons.prems(4) raw_key_not_item [of f] by auto
    moreover have "\<forall>h \<in> set fs. raw_key f = raw_key h \<longrightarrow> \<not> holds_json_array py d1 h"
      using Cons.prems(3) True by (auto simp add: raw_key_inj)
    ultimately have "dict_get (fst (post_process_loop py fs d1)) (raw_key f)
                     = dict_get d1 (raw_key f)"
      using Cons.prems(3,4) by (intro loop_frame) simp_all
    with sib d1 True show ?thesis by simp
  next
    case False
    then have in_fs: "f \<in> set fs" using Cons.prems(1) by simp
    show ?thesis
    proof (cases "post_process_field py g d")
      case (Inl e)
      with Cons.prems(5) show ?thesis by simp
    next
      case (Inr d1)
      have "f \<in> set item_fields" using in_fs Cons.prems(4) by auto
      moreover have "f \<noteq> g" using False by auto
      ultimately have same: "dict_get d1 f = dict_get d f"
        using Inr post_process_field_other_field by blast
      then have "dict_get d f = dict_get d1 f" by simp
      then have "holds_json_array py d1 f"
        using Cons.prems(2) by (rule holds_json_array_transfer)
      moreover have "snd (post_process_loop py fs d1) = None"
        using Cons.prems(5) Inr by simp
      ultimately have "dict_get (fst (post_process_loop py fs d1)) (raw_key f)
                       = dict_get d1 f"
        using in_fs Cons.prems(3,4) by (intro Cons.IH) simp_all
      with same Inr show ?thesis by simp
    qed
  qed
qed

text \<open>
  C10 (as amended). Post-processing changes the dictionary in place; the properties are
  those of the dictionary as it stands when the function returns or raises. The value of
  every key outside the list-like set (\<^verbatim>\<open>items_purchased\<close>, \<^verbatim>\<open>line_items\<close>, \<^verbatim>\<open>items\<close>,
  \<^verbatim>\<open>products\<close>) is unchanged, unless the key is the sibling \<^verbatim>\<open><field>_raw\<close> of a list-like
  field whose string value contains a parseable, non-empty JSON array. No key is ever
  removed. The only keys added are such siblings. And when the function returns, such a
  sibling holds the field's original string, whether or not the key existed before.
\<close>

theorem post_process_frame:
  "(k \<notin> set item_fields
      \<and> (\<forall>f \<in> set item_fields. k = raw_key f \<longrightarrow> \<not> holds_json_array py d f) \<longrightarrow>
      dict_get (fst (post_process_extracted_data py d)) k = dict_get d k)
   \<and> (has_key d k \<longrightarrow> has_key (fst (post_process_extracted_data py d)) k)
   \<and> (has_key (fst (post_process_extracted_data py d)) k \<and> \<not> has_key d k \<longrightarrow>
      (\<exists>f \<in> set item_fields. k = raw_key f \<and> holds_json_array py d f))
   \<and> (snd (post_process_extracted_data py d) = None
      \<and> f \<in> set item_fields \<and> holds_json_array py d f \<longrightarrow>
      dict_get (fst (post_process_extracted_data py d)) (raw_key f) = dict_get d f)"
proof -
  have dist: "distinct item_fields" by (simp add: item_fields_def)
  have sub: "set item_fields \<subseteq> set item_fields" by simp
  show ?thesis
    unfolding post_process_extracted_data_def
    using loop_frame [of k item_fields py d, OF _ _ dist sub]
      loop_keeps [of d k py item_fields]
      loop_new [of py item_fields d k, OF _ _ dist sub]
      loop_sibling [of f item_fields py d, OF _ _ dist sub]
    by blast
qed

lemma example_loads_pens:
  \<open>json_loads example_python ''["pen", "ink"]'' = Inr (PList [PStr ''pen'', PStr ''ink''])\<close>
  by (simp add: example_python_def example_loads_def)

lemma example_py_str: "py_str example_python v = example_str v"
  by (simp add: example_python_def)

lemma example_search_bought: \<open>re_search_brackets ''Bought: ["pen", "ink"]'' = Some ''["pen", "ink"]''\<close>
  by simp

lemma example_search_pens: \<open>re_search_brackets ''["pen", "ink"]'' = Some ''["pen", "ink"]''\<close>
  by simp

lemma example_bought_returns:
  \<open>snd (post_process_extracted_data example_python
       [(''vendor'', PStr ''Acme''), (''items'', PStr ''Bought: ["pen", "ink"]'')]) = None\<close>
proof -
  let ?d = \<open>[(''vendor'', PStr ''Acme''), (''items'', PStr ''Bought: ["pen", "ink"]'')]\<close>
  have s1: "post_process_field example_python ''items_purchased'' ?d = Inr ?d"
    "post_process_field example_python ''line_items'' ?d = Inr ?d"
    by (simp_all add: post_process_field_def dict_get_def)
  have s2: \<open>post_process_field example_python ''items'' ?d
            = Inr [(''vendor'', PStr ''Acme''),
                   (''items'', PStr (bullet @ '' pen'' @ [CHR 0x0A] @ bullet @ '' ink'')),
                   (''items_raw'', PStr ''Bought: ["pen", "ink"]'')]\<close>
    by (simp add: post_process_field_def dict_get_def dict_set_def example_search_bought
        example_loads_pens bullet_lines_def item_str_def example_py_str)
  have s3: \<open>post_process_field example_python ''products''
              [(''vendor'', PStr ''Acme''),
               (''items'', PStr (bullet @ '' pen'' @ [CHR 0x0A] @ bullet @ '' ink'')),
               (''items_raw'', PStr ''Bought: ["pen", "ink"]'')]
            = Inr [(''vendor'', PStr ''Acme''),
                   (''items'', PStr (bullet @ '' pen'' @ [CHR 0x0A] @ bullet @ '' ink'')),
                   (''items_raw'', PStr ''Bought: ["pen", "ink"]'')]\<close>
    by (simp add: post_process_field_def dict_get_def)
  show ?thesis
    by (simp only: post_process_extracted_data_def item_fields_def post_process_loop.simps
        s1 s2 s3 sum.case snd_conv)
qed

theorem post_process_frame_witness:
  \<open>dict_get (fst (post_process_extracted_data example_python
       [(''vendor'', PStr ''Acme''), (''items'', PStr ''Bought: ["pen", "ink"]'')])) ''vendor''
     = Some (PStr ''Acme'')
   \<and> has_key (fst (post_process_extracted_data example_python
       [(''vendor'', PStr ''Acme''), (''items'', PStr ''Bought: ["pen", "ink"]'')])) ''items''
   \<and> holds_json_array example_python
       [(''vendor'', PStr ''Acme''), (''items'', PStr ''Bought: ["pen", "ink"]'')] ''items''
   \<and> dict_get (fst (post_process_extracted_data example_python
       [(''vendor'', PStr ''Acme''), (''items'', PStr ''Bought: ["pen", "ink"]'')])) ''items_raw''
     = Some (PStr ''Bought: ["pen", "ink"]'')
   \<and> dict_get (fst (post_process_extracted_data example_python
       [(''items'', PStr ''two pens''), (''items_raw'', PStr ''as delivered'')])) ''items_raw''
     = Some (PStr ''as delivered'')\<close>
proof -
  let ?d = \<open>[(''vendor'', PStr ''Acme''), (''items'', PStr ''Bought: ["pen", "ink"]'')]\<close>
  let ?e = \<open>[(''items'', PStr ''two pens''), (''items_raw'', PStr ''as delivered'')]\<close>
  have h: "holds_json_array example_python ?d ''items''"
    by (simp add: holds_json_array_def dict_get_def example_search_bought example_loads_pens)
  have i: "''items'' \<in> set item_fields" "''vendor'' \<notin> set item_fields"
    "\<forall>f \<in> set item_fields. ''vendor'' = raw_key f \<longrightarrow> \<not> holds_json_array example_python ?d f"
    by (simp_all add: item_fields_def raw_key_def)
  have j: "''items_raw'' \<notin> set item_fields"
    "\<forall>f \<in> set item_fields. ''items_raw'' = raw_key f \<longrightarrow> \<not> holds_json_array example_python ?e f"
    by (simp_all add: item_fields_def raw_key_def holds_json_array_def dict_get_def)
  have "dict_get (fst (post_process_extracted_data example_python ?d)) ''vendor''
        = Some (PStr ''Acme'')"
    using post_process_frame [of "''vendor''" example_python ?d] i
    by (simp add: dict_get_def)
  moreover have "has_key (fst (post_process_extracted_data example_python ?d)) ''items''"
    using post_process_frame [of "''items''" example_python ?d]
    by (simp add: has_key_def)
  moreover have \<open>dict_get (fst (post_process_extracted_data example_python ?d)) ''items_raw''
     = Some (PStr ''Bought: ["pen", "ink"]'')\<close>
    using post_process_frame [of _ example_python ?d "''items''"] i h example_bought_returns
    by (simp add: dict_get_def raw_key_def)
  moreover have "dict_get (fst (post_process_extracted_data example_python ?e)) ''items_raw''
     = Some (PStr ''as delivered'')"
    using post_process_frame [of "''items_raw''" example_python ?e] j
    by (simp add: dict_get_def)
  ultimately show ?thesis using h by simp
qed

text \<open>
  The claim as stated leaves every key outside the four list-like fields unchanged. The
  key \<^verbatim>\<open>items_raw\<close> is outside them, and when the input already has it and \<^verbatim>\<open>items\<close> holds
  a parseable array, its value is overwritten with the old string of \<^verbatim>\<open>items\<close>.
\<close>

theorem post_process_overwrites_sibling:
  \<open>''items_raw'' \<notin> set item_fields
   \<and> dict_get [(''items'', PStr ''["pen", "ink"]''), (''items_raw'', PStr ''as delivered'')]
        ''items_raw'' = Some (PStr ''as delivered'')
   \<and> post_process_extracted_data example_python
        [(''items'', PStr ''["pen", "ink"]''), (''items_raw'', PStr ''as delivered'')]
      = ([(''items'', PStr (bullet @ '' pen'' @ [CHR 0x0A] @ bullet @ '' ink'')),
          (''items_raw'', PStr ''["pen", "ink"]'')], None)
   \<and> dict_get (fst (post_process_extracted_data example_python
        [(''items'', PStr ''["pen", "ink"]''), (''items_raw'', PStr ''as delivered'')]))
        ''items_raw'' = Some (PStr ''["pen", "ink"]'')\<close>
proof -
  let ?d = \<open>[(''items'', PStr ''["pen", "ink"]''), (''items_raw'', PStr ''as delivered'')]\<close>
  have a: "''items_raw'' \<notin> set item_fields" by (simp add: item_fields_def)
  have b: "dict_get ?d ''items_raw'' = Some (PStr ''as delivered'')" by (simp add: dict_get_def)
  have s1: "post_process_field example_python ''items_purchased'' ?d = Inr ?d"
    "post_process_field example_python ''line_items'' ?d = Inr ?d"
    by (simp_all add: post_process_field_def dict_get_def)
  have s2: \<open>post_process_field example_python ''items'' ?d
            = Inr [(''items'', PStr (bullet @ '' pen'' @ [CHR 0x0A] @ bullet @ '' ink'')),
                   (''items_raw'', PStr ''["pen", "ink"]'')]\<close>
    by (simp add: post_process_field_def dict_get_def dict_set_def example_search_pens
        example_loads_pens bullet_lines_def item_str_def example_py_str)
  have s3: \<open>post_process_field example_python ''products''
              [(''items'', PStr (bullet @ '' pen'' @ [CHR 0x0A] @ bullet @ '' ink'')),
               (''items_raw'', PStr ''["pen", "ink"]'')]
            = Inr [(''items'', PStr (bullet @ '' pen'' @ [CHR 0x0A] @ bullet @ '' ink'')),
                   (''items_raw'', PStr ''["pen", "ink"]'')]\<close>
    by (simp add: post_process_field_def dict_get_def)
  have c: \<open>post_process_extracted_data example_python ?d
        = ([(''items'', PStr (bullet @ '' pen'' @ [CHR 0x0A] @ bullet @ '' ink'')),
            (''items_raw'', PStr ''["pen", "ink"]'')], None)\<close>
    by (simp only: post_process_extracted_data_def item_fields_def post_process_loop.simps
        s1 s2 s3 sum.case)
  then have \<open>dict_get (fst (post_process_extracted_data example_python ?d)) ''items_raw''
              = Some (PStr ''["pen", "ink"]'')\<close>
    by (simp add: dict_get_def)
  with a b c show ?thesis by simp
qed

end
